theory Spec2Isabelle
  imports Complex_Main
begin

section \<open>JavaScript values\<close>

text \<open>
  Both scripts exchange JSON-shaped values: command envelopes, their \<open>args\<close>, and the
  replies. A number is a rational here (the values JSON can carry; NaN and the
  infinities are not representable), an object is an association list read at its
  first matching key.
\<close>

datatype jsval =
    JUndefined
  | JNull
  | JBool bool
  | JNum rat
  | JStr string
  | JArr "jsval list"
  | JObj "(string \<times> jsval) list"

text \<open>ToBoolean, as used by \<open>if (v)\<close>, \<open>!v\<close>, \<open>a || b\<close> and \<open>a && b\<close>.\<close>

fun truthy :: "jsval \<Rightarrow> bool" where
  "truthy JUndefined = False"
| "truthy JNull = False"
| "truthy (JBool b) = b"
| "truthy (JNum q) = (q \<noteq> 0)"
| "truthy (JStr s) = (s \<noteq> [])"
| "truthy (JArr xs) = True"
| "truthy (JObj kvs) = True"

text \<open>\<open>a || b\<close> and \<open>a ?? b\<close>.\<close>

definition js_or :: "jsval \<Rightarrow> jsval \<Rightarrow> jsval" where
  "js_or a b = (if truthy a then a else b)"

definition nullish :: "jsval \<Rightarrow> bool" where
  "nullish v = (v = JUndefined \<or> v = JNull)"

definition js_coalesce :: "jsval \<Rightarrow> jsval \<Rightarrow> jsval" where
  "js_coalesce a b = (if nullish a then b else a)"

text \<open>
  \<open>v.k\<close> on a value that is neither null nor undefined. Every property name the two
  scripts read (\<open>id\<close>, \<open>cmd\<close>, \<open>args\<close>, \<open>type\<close>, \<open>ok\<close>, \<open>selector\<close>, \<open>url\<close>, ...) is absent
  from the built-in prototypes, so a primitive or an array yields undefined.
\<close>

fun js_get :: "jsval \<Rightarrow> string \<Rightarrow> jsval" where
  "js_get (JObj kvs) k = (case map_of kvs k of Some v \<Rightarrow> v | None \<Rightarrow> JUndefined)"
| "js_get v k = JUndefined"

text \<open>\<open>v?.k\<close>.\<close>

definition opt_prop :: "jsval \<Rightarrow> string \<Rightarrow> jsval" where
  "opt_prop v k = (if nullish v then JUndefined else js_get v k)"

text \<open>A destructuring default \<open>{ k = d }\<close>: it applies to undefined only.\<close>

definition dflt :: "jsval \<Rightarrow> jsval \<Rightarrow> jsval" where
  "dflt v d = (if v = JUndefined then d else v)"

fun Number_isInteger :: "jsval \<Rightarrow> bool" where
  "Number_isInteger (JNum q) = (of_int \<lfloor>q\<rfloor> = q)"
| "Number_isInteger v = False"

text \<open>\<open>String.prototype.includes\<close> on two strings.\<close>

fun str_includes :: "string \<Rightarrow> string \<Rightarrow> bool" where
  "str_includes [] sub = (sub = [])"
| "str_includes (c # cs) sub = (take (length sub) (c # cs) = sub \<or> str_includes cs sub)"

text \<open>\<open>Array.prototype.slice(0, end)\<close> with an integral \<open>end\<close>: a negative end counts
  from the back.\<close>

definition slice0 :: "'a list \<Rightarrow> int \<Rightarrow> 'a list" where
  "slice0 xs e =
     (let len = int (length xs);
          final = (if e < 0 then max (len + e) 0 else min e len)
      in take (nat final) xs)"

text \<open>
  \<open>String.prototype.trim\<close>. A string is the UTF-8 bytes of its text, so the white space
  and the line terminators of the language are these byte sequences: the tab, the
  four ASCII line and page breaks, the space, U+00A0, U+1680, U+2000 to U+200A,
  U+2028, U+2029, U+202F, U+205F, U+3000 and U+FEFF.
\<close>

definition white_space :: "string list" where
  "white_space =
     [[CHR 0x09], [CHR 0x0A], [CHR 0x0B], [CHR 0x0C], [CHR 0x0D], [CHR 0x20],
      [CHR 0xC2, CHR 0xA0],
      [CHR 0xE1, CHR 0x9A, CHR 0x80],
      [CHR 0xE2, CHR 0x80, CHR 0x80], [CHR 0xE2, CHR 0x80, CHR 0x81],
      [CHR 0xE2, CHR 0x80, CHR 0x82], [CHR 0xE2, CHR 0x80, CHR 0x83],
      [CHR 0xE2, CHR 0x80, CHR 0x84], [CHR 0xE2, CHR 0x80, CHR 0x85],
      [CHR 0xE2, CHR 0x80, CHR 0x86], [CHR 0xE2, CHR 0x80, CHR 0x87],
      [CHR 0xE2, CHR 0x80, CHR 0x88], [CHR 0xE2, CHR 0x80, CHR 0x89],
      [CHR 0xE2, CHR 0x80, CHR 0x8A],
      [CHR 0xE2, CHR 0x80, CHR 0xA8], [CHR 0xE2, CHR 0x80, CHR 0xA9],
      [CHR 0xE2, CHR 0x80, CHR 0xAF],
      [CHR 0xE2, CHR 0x81, CHR 0x9F],
      [CHR 0xE3, CHR 0x80, CHR 0x80],
      [CHR 0xEF, CHR 0xBB, CHR 0xBF]]"

text \<open>The length of the first of the sequences \<open>pats\<close> that \<open>s\<close> starts with, 0 when it
  starts with none.\<close>

definition leading_space :: "string list \<Rightarrow> string \<Rightarrow> nat" where
  "leading_space pats s =
     (case find (\<lambda>p. take (length p) s = p) pats of None \<Rightarrow> 0 | Some p \<Rightarrow> length p)"

function strip :: "string list \<Rightarrow> string \<Rightarrow> string" where
  "strip pats s =
     (if leading_space pats s = 0 \<or> s = [] then s
      else strip pats (drop (leading_space pats s) s))"
  by pat_completeness auto
termination
  by (relation "measure (\<lambda>(pats, s). length s)") auto

text \<open>White space is stripped at the start, and at the end by reading the bytes
  backwards.\<close>

definition trim :: "string \<Rightarrow> string" where
  "trim s = rev (strip (map rev white_space) (rev (strip white_space s)))"

subsection \<open>Exceptions\<close>

text \<open>
  Everything thrown in the two scripts is an Error object: \<open>new Error(m)\<close>, a rejection
  of a browser API, or a TypeError of the engine. It is kept as its name and message.
\<close>

datatype js_error = JsError string string

definition Error :: "string \<Rightarrow> js_error" where
  "Error m = JsError ''Error'' m"

text \<open>\<open>String(e?.message || e)\<close>: the message, or for an empty message what
  \<open>Error.prototype.toString\<close> gives then, the name.\<close>

fun err_text :: "js_error \<Rightarrow> string" where
  "err_text (JsError n m) = (if m \<noteq> [] then m else n)"

text \<open>The engine's TypeError for \<open>null.k\<close> and for \<open>const { k } = null\<close> (V8's wording).\<close>

definition read_of_null :: "string \<Rightarrow> js_error" where
  "read_of_null k =
     JsError ''TypeError'' (''Cannot read properties of null (reading '' @ [CHR 0x27] @ k @ [CHR 0x27] @ '')'')"

definition destructure_of_null :: "string \<Rightarrow> js_error" where
  "destructure_of_null k =
     JsError ''TypeError''
       (''Cannot destructure property '' @ [CHR 0x27] @ k @ [CHR 0x27] @ '' of ''
          @ [CHR 0x27] @ ''args'' @ [CHR 0x27] @ '' as it is null.'')"

definition read_prop :: "jsval \<Rightarrow> string \<Rightarrow> js_error + jsval" where
  "read_prop v k = (if nullish v then Inl (read_of_null k) else Inr (js_get v k))"

subsection \<open>Built-ins taken as parameters\<close>

text \<open>
  \<open>JSON.parse\<close> (None when it throws), and the coercions ToNumber and ToString on the
  values where they are not a one-line table.
\<close>

record js_runtime =
  JSON_parse :: "string \<Rightarrow> jsval option"
  ToNumber_of :: "jsval \<Rightarrow> rat option"
  ToString_of :: "jsval \<Rightarrow> string"

definition ToNumber :: "js_runtime \<Rightarrow> jsval \<Rightarrow> rat option" where
  "ToNumber rt v =
     (case v of
        JUndefined \<Rightarrow> None
      | JNull \<Rightarrow> Some 0
      | JBool b \<Rightarrow> Some (if b then 1 else 0)
      | JNum q \<Rightarrow> Some q
      | _ \<Rightarrow> ToNumber_of rt v)"

definition ToString :: "js_runtime \<Rightarrow> jsval \<Rightarrow> string" where
  "ToString rt v = (case v of JStr s \<Rightarrow> s | _ \<Rightarrow> ToString_of rt v)"

text \<open>\<open>n > v\<close> for a number \<open>n\<close>: false when \<open>v\<close> coerces to NaN.\<close>

definition js_gt :: "js_runtime \<Rightarrow> int \<Rightarrow> jsval \<Rightarrow> bool" where
  "js_gt rt n v = (case ToNumber rt v of None \<Rightarrow> False | Some q \<Rightarrow> q < of_int n)"

subsection \<open>Result envelopes\<close>

definition ok_reply :: "jsval \<Rightarrow> jsval \<Rightarrow> jsval" where
  "ok_reply i d = JObj [(''id'', i), (''ok'', JBool True), (''data'', d)]"

definition fail_reply :: "jsval \<Rightarrow> string \<Rightarrow> jsval" where
  "fail_reply i e = JObj [(''id'', i), (''ok'', JBool False), (''error'', JStr e)]"

definition error_reply :: "jsval \<Rightarrow> js_error \<Rightarrow> jsval" where
  "error_reply i e = fail_reply i (err_text e)"


section \<open>The content script (contentScript.js)\<close>

subsection \<open>The page\<close>

text \<open>
  An element is its identity, the two things \<open>query\<close> reads from it, and its owning
  form. The document is what its lookup methods return at the time of the call; a
  lookup throws on a selector the engine does not accept (\<open>Inl\<close>).
\<close>

record element =
  node :: nat
  getAttribute :: "jsval \<Rightarrow> string option"
  innerText :: "string option"
  form :: "nat option"

record document =
  querySelector :: "jsval \<Rightarrow> js_error + element option"
  querySelectorAll :: "jsval \<Rightarrow> js_error + element list"
  elementFromPoint :: "jsval \<Rightarrow> jsval \<Rightarrow> js_error + element option"
  body_scrollHeight :: rat

text \<open>What a command does to the page, in order.\<close>

datatype dom_effect =
    ScrollIntoView nat jsval
  | DispatchEvent nat string
  | Click nat
  | Focus nat
  | SetValue nat jsval
  | FormSubmit nat
  | WindowScrollTo jsval

subsection \<open>waitForSelector\<close>

text \<open>
  The promise of \<open>waitForSelector\<close> with its two resources: the MutationObserver and
  the 150 ms interval. \<open>settled\<close> is the first of \<open>resolve(true)\<close> and \<open>reject(e)\<close>; later
  calls of either are without effect, as for any promise.
\<close>

record wait_state =
  observer_connected :: bool
  poll_active :: bool
  settled :: "(js_error + bool) option"

definition resolve :: "wait_state \<Rightarrow> wait_state" where
  "resolve s = (if settled s = None then s\<lparr>settled := Some (Inr True)\<rparr> else s)"

definition reject :: "js_error \<Rightarrow> wait_state \<Rightarrow> wait_state" where
  "reject e s = (if settled s = None then s\<lparr>settled := Some (Inl e)\<rparr> else s)"

text \<open>
  What happens after the call: the observer's callback is run on a mutation, the
  interval's on a tick. Each event carries what \<open>document.querySelector(selector)\<close>
  returns at that moment (whether it matches, or the exception), a tick also
  \<open>Date.now()\<close>.
\<close>

datatype wait_event =
    Mutation "js_error + bool"
  | PollTick "js_error + bool" int

text \<open>The observer's callback (lines 10-15). A throwing lookup ends the callback.\<close>

definition observer_callback :: "wait_state \<Rightarrow> js_error + bool \<Rightarrow> wait_state" where
  "observer_callback s q =
     (case q of
        Inl e \<Rightarrow> s
      | Inr found \<Rightarrow>
          if found then resolve (s\<lparr>observer_connected := False\<rparr>) else s)"

text \<open>The interval's callback (lines 18-29).\<close>

definition poll_callback ::
  "js_runtime \<Rightarrow> int \<Rightarrow> jsval \<Rightarrow> wait_state \<Rightarrow> js_error + bool \<Rightarrow> int \<Rightarrow> wait_state" where
  "poll_callback rt start timeoutMs s q now =
     (case q of
        Inl e \<Rightarrow> s
      | Inr found \<Rightarrow>
          let s1 = (if found
                    then resolve (s\<lparr>poll_active := False, observer_connected := False\<rparr>)
                    else s)
          in if js_gt rt (now - start) timeoutMs
             then reject (Error ''waitFor_timeout'')
                    (s1\<lparr>poll_active := False, observer_connected := False\<rparr>)
             else s1)"

text \<open>A disconnected observer and a cleared interval no longer call back.\<close>

fun wait_step :: "js_runtime \<Rightarrow> int \<Rightarrow> jsval \<Rightarrow> wait_state \<Rightarrow> wait_event \<Rightarrow> wait_state" where
  "wait_step rt start timeoutMs s (Mutation q) =
     (if observer_connected s then observer_callback s q else s)"
| "wait_step rt start timeoutMs s (PollTick q now) =
     (if poll_active s then poll_callback rt start timeoutMs s q now else s)"

text \<open>
  \<open>waitForSelector(selector, timeoutMs = 10000)\<close>, called at time \<open>start\<close> and followed
  by the events \<open>evs\<close>. The immediate check (line 7) returns or throws before any
  resource exists; otherwise the observer and the interval are created and the
  events run. \<open>settled = None\<close> at the end: still pending after \<open>evs\<close>.
\<close>

definition waitForSelector ::
  "js_runtime \<Rightarrow> document \<Rightarrow> int \<Rightarrow> wait_event list \<Rightarrow> jsval \<Rightarrow> jsval \<Rightarrow> wait_state" where
  "waitForSelector rt doc start evs selector timeoutMs0 =
     (let timeoutMs = dflt timeoutMs0 (JNum 10000)
      in case (if truthy selector then querySelector doc selector else Inr None) of
           Inl e \<Rightarrow> \<lparr>observer_connected = False, poll_active = False, settled = Some (Inl e)\<rparr>
         | Inr (Some el) \<Rightarrow>
             \<lparr>observer_connected = False, poll_active = False, settled = Some (Inr True)\<rparr>
         | Inr None \<Rightarrow>
             foldl (wait_step rt start timeoutMs)
               \<lparr>observer_connected = True, poll_active = True, settled = None\<rparr> evs)"

subsection \<open>The DOM helpers\<close>

definition dollar :: "document \<Rightarrow> jsval \<Rightarrow> js_error + element option" where
  "dollar doc sel = querySelector doc sel"

definition dollar_dollar :: "document \<Rightarrow> jsval \<Rightarrow> js_error + element list" where
  "dollar_dollar doc sel = querySelectorAll doc sel"

definition safeClick :: "element option \<Rightarrow> js_error + dom_effect list" where
  "safeClick el =
     (case el of
        None \<Rightarrow> Inl (Error ''element_not_found'')
      | Some e \<Rightarrow>
          Inr [ScrollIntoView (node e) (JObj [(''block'', JStr ''center''), (''inline'', JStr ''center'')]),
               DispatchEvent (node e) ''mouseover'',
               Click (node e)])"

definition typeText :: "element option \<Rightarrow> jsval \<Rightarrow> jsval \<Rightarrow> js_error + dom_effect list" where
  "typeText el text submit =
     (case el of
        None \<Rightarrow> Inl (Error ''element_not_found'')
      | Some e \<Rightarrow>
          Inr ([Focus (node e),
                SetValue (node e) (js_coalesce text (JStr [])),
                DispatchEvent (node e) ''input'',
                DispatchEvent (node e) ''change'']
               @ (if truthy submit
                  then (case form e of
                          Some f \<Rightarrow> [FormSubmit f]
                        | None \<Rightarrow> [DispatchEvent (node e) ''keydown''])
                  else [])))"

subsection \<open>The command handlers (the listener of lines 56-133)\<close>

text \<open>
  What one message leaves behind: the argument of \<open>sendResponse\<close> (None while it has
  not been called), the effects on the page, and for \<open>waitFor\<close> the state of its
  promise.
\<close>

record cs_outcome =
  response :: "jsval option"
  effects :: "dom_effect list"
  waiting :: "wait_state option"

text \<open>The end of the \<open>try\<close> block: the success reply, or the \<open>catch\<close> of lines 126-128.\<close>

definition finish :: "jsval \<Rightarrow> js_error + jsval \<times> dom_effect list \<Rightarrow> cs_outcome" where
  "finish i r =
     (case r of
        Inl e \<Rightarrow> \<lparr>response = Some (error_reply i e), effects = [], waiting = None\<rparr>
      | Inr (d, fx) \<Rightarrow> \<lparr>response = Some (ok_reply i d), effects = fx, waiting = None\<rparr>)"

text \<open>\<open>waitFor\<close> (lines 69-73). Nothing is sent while the promise is pending.\<close>

definition cmd_waitFor ::
  "js_runtime \<Rightarrow> document \<Rightarrow> int \<Rightarrow> wait_event list \<Rightarrow> jsval \<Rightarrow> jsval \<Rightarrow> cs_outcome" where
  "cmd_waitFor rt doc start evs i args =
     (case read_prop args ''selector'' of
        Inl e \<Rightarrow> finish i (Inl e)
      | Inr selector \<Rightarrow>
          let w = waitForSelector rt doc start evs selector
                    (js_or (js_get args ''timeoutMs'') (JNum 10000))
          in \<lparr>response =
                 (case settled w of
                    None \<Rightarrow> None
                  | Some (Inl e) \<Rightarrow> Some (error_reply i e)
                  | Some (Inr b) \<Rightarrow> Some (ok_reply i (JObj [(''waitedFor'', selector)]))),
               effects = [],
               waiting = Some w\<rparr>)"

text \<open>\<open>out.slice(0, limit)\<close> once \<open>Number.isInteger(limit)\<close> holds.\<close>

fun slice_limit :: "jsval list \<Rightarrow> jsval \<Rightarrow> jsval list" where
  "slice_limit out (JNum q) = slice0 out \<lfloor>q\<rfloor>"
| "slice_limit out v = out"

definition extract_value :: "jsval \<Rightarrow> element \<Rightarrow> jsval" where
  "extract_value attr n =
     (if truthy attr
      then (case getAttribute n attr of Some s \<Rightarrow> JStr s | None \<Rightarrow> JNull)
      else JStr (trim (case innerText n of Some s \<Rightarrow> s | None \<Rightarrow> [])))"

text \<open>\<open>[$(selector)].filter(Boolean)\<close>: the first match, if any.\<close>

definition first_match :: "document \<Rightarrow> jsval \<Rightarrow> js_error + element list" where
  "first_match doc sel =
     (case dollar doc sel of
        Inl e \<Rightarrow> Inl e
      | Inr None \<Rightarrow> Inr []
      | Inr (Some el) \<Rightarrow> Inr [el])"

text \<open>\<open>query\<close> (lines 75-84): the \<open>data\<close> of the reply, or what is thrown.\<close>

definition cmd_query :: "document \<Rightarrow> jsval \<Rightarrow> js_error + jsval" where
  "cmd_query doc args =
     (if nullish args then Inl (destructure_of_null ''selector'')
      else
        let selector = js_get args ''selector'';
            all = dflt (js_get args ''all'') (JBool False);
            attr = dflt (js_get args ''attr'') JNull;
            limit = dflt (js_get args ''limit'') JNull
        in if \<not> truthy selector then Inl (Error ''missing_selector'')
           else
             case (if truthy all then dollar_dollar doc selector
                   else first_match doc selector) of
               Inl e \<Rightarrow> Inl e
             | Inr nodes \<Rightarrow>
                 let out = map (extract_value attr) nodes;
                     out' = (if Number_isInteger limit then slice_limit out limit else out)
                 in Inr (JObj [(''results'', JArr out')]))"

text \<open>\<open>click\<close> (lines 86-100).\<close>

definition cmd_click :: "document \<Rightarrow> jsval \<Rightarrow> js_error + jsval \<times> dom_effect list" where
  "cmd_click doc args =
     (if nullish args then Inl (destructure_of_null ''selector'')
      else
        let selector = js_get args ''selector'';
            xy = js_get args ''xy''
        in if truthy selector then
             (case dollar doc selector of
                Inl e \<Rightarrow> Inl e
              | Inr el \<Rightarrow>
                  (case safeClick el of
                     Inl e \<Rightarrow> Inl e
                   | Inr fx \<Rightarrow> Inr (JObj [(''clicked'', selector)], fx)))
           else if truthy xy then
             (case elementFromPoint doc (js_get xy ''x'') (js_get xy ''y'') of
                Inl e \<Rightarrow> Inl e
              | Inr el \<Rightarrow>
                  (case safeClick el of
                     Inl e \<Rightarrow> Inl e
                   | Inr fx \<Rightarrow> Inr (JObj [(''clickedXY'', xy)], fx)))
           else Inl (Error ''missing_selector_or_xy''))"

text \<open>\<open>v.length\<close> of a value that is not null or undefined.\<close>

definition js_length :: "jsval \<Rightarrow> jsval" where
  "js_length v =
     (case v of
        JStr s \<Rightarrow> JNum (of_nat (length s))
      | JArr xs \<Rightarrow> JNum (of_nat (length xs))
      | _ \<Rightarrow> js_get v ''length'')"

text \<open>\<open>type\<close> (lines 102-107).\<close>

definition cmd_type :: "document \<Rightarrow> jsval \<Rightarrow> js_error + jsval \<times> dom_effect list" where
  "cmd_type doc args =
     (if nullish args then Inl (destructure_of_null ''selector'')
      else
        let selector = js_get args ''selector'';
            text = js_get args ''text'';
            submit = js_get args ''submit''
        in case dollar doc selector of
             Inl e \<Rightarrow> Inl e
           | Inr el \<Rightarrow>
               (case typeText el text submit of
                  Inl e \<Rightarrow> Inl e
                | Inr fx \<Rightarrow> Inr (JObj [(''typed'', js_length (js_or text (JStr [])))], fx)))"

text \<open>\<open>scroll\<close> (lines 109-122).\<close>

definition cmd_scroll :: "document \<Rightarrow> jsval \<Rightarrow> js_error + jsval \<times> dom_effect list" where
  "cmd_scroll doc args =
     (if nullish args then Inl (destructure_of_null ''to'')
      else
        let to = js_get args ''to'';
            selector = js_get args ''selector'';
            scrolled = JObj [(''scrolled'', JBool True)]
        in if truthy selector then
             (case dollar doc selector of
                Inl e \<Rightarrow> Inl e
              | Inr None \<Rightarrow> Inl (Error ''element_not_found'')
              | Inr (Some el) \<Rightarrow>
                  Inr (scrolled, [ScrollIntoView (node el)
                                (JObj [(''behavior'', JStr ''smooth''), (''block'', JStr ''center'')])]))
           else if to = JStr ''top'' then
             Inr (scrolled, [WindowScrollTo (JObj [(''top'', JNum 0), (''behavior'', JStr ''smooth'')])])
           else if to = JStr ''bottom'' then
             Inr (scrolled, [WindowScrollTo (JObj [(''top'', JNum (body_scrollHeight doc)),
                                               (''behavior'', JStr ''smooth'')])])
           else Inr (scrolled, []))"

text \<open>The \<open>try\<close> block of lines 68-128, for the envelope \<open>{ id, cmd, args }\<close>.\<close>

definition run_command ::
  "js_runtime \<Rightarrow> document \<Rightarrow> int \<Rightarrow> wait_event list \<Rightarrow> jsval \<Rightarrow> jsval \<Rightarrow> jsval \<Rightarrow> cs_outcome" where
  "run_command rt doc start evs i cmd args =
     (if cmd = JStr ''waitFor'' then cmd_waitFor rt doc start evs i args
      else if cmd = JStr ''query'' then
        finish i (case cmd_query doc args of Inl e \<Rightarrow> Inl e | Inr d \<Rightarrow> Inr (d, []))
      else if cmd = JStr ''click'' then finish i (cmd_click doc args)
      else if cmd = JStr ''type'' then finish i (cmd_type doc args)
      else if cmd = JStr ''scroll'' then finish i (cmd_scroll doc args)
      else \<lparr>response = Some (fail_reply i ''unknown_command''), effects = [], waiting = None\<rparr>)"

text \<open>The listener: the liveness probe, then the command messages; anything else is
  left unanswered.\<close>

definition cs_onMessage ::
  "js_runtime \<Rightarrow> document \<Rightarrow> int \<Rightarrow> wait_event list \<Rightarrow> jsval \<Rightarrow> cs_outcome" where
  "cs_onMessage rt doc start evs msg =
     (if opt_prop msg ''type'' = JStr ''adapter:ping'' then
        \<lparr>response = Some (JObj [(''ok'', JBool True), (''type'', JStr ''adapter:pong'')]),
         effects = [], waiting = None\<rparr>
      else if opt_prop msg ''type'' \<noteq> JStr ''adapter:cmd'' then
        \<lparr>response = None, effects = [], waiting = None\<rparr>
      else
        run_command rt doc start evs
          (js_get msg ''id'') (js_get msg ''cmd'') (dflt (js_get msg ''args'') (JObj [])))"

section \<open>The background service worker (background.js)\<close>

subsection \<open>The browser as the worker sees it\<close>

datatype ready_state = CONNECTING | OPEN | CLOSING | CLOSED

record tab =
  tab_id :: int
  tab_title :: "string option"
  tab_url :: "string option"

text \<open>The calls the worker makes to the extension API, and its own \<open>delay(ms)\<close>.\<close>

datatype call =
    SendMessage int jsval
  | ExecuteScript int
  | TabsQuery jsval
  | TabsCreate jsval
  | TabsUpdate int jsval
  | CaptureVisibleTab jsval jsval
  | AwaitTabComplete int nat
  | Delay nat

text \<open>
  How the browser answers. Each answer may depend on the number of calls made before
  it, so that a call repeated later can be answered differently; \<open>Inl\<close> (or
  \<open>Some e\<close>) is a rejected promise. \<open>tab_complete\<close> says whether the tab reports
  \<open>status = "complete"\<close> before \<open>waitForTabComplete\<close> sees its timeout.
\<close>

record chrome =
  tabs_sendMessage :: "nat \<Rightarrow> int \<Rightarrow> jsval \<Rightarrow> js_error + jsval"
  scripting_executeScript :: "nat \<Rightarrow> int \<Rightarrow> js_error option"
  tabs_query :: "nat \<Rightarrow> jsval \<Rightarrow> js_error + tab list"
  tabs_create :: "nat \<Rightarrow> jsval \<Rightarrow> js_error + tab"
  tabs_update :: "nat \<Rightarrow> int \<Rightarrow> jsval \<Rightarrow> js_error option"
  tabs_captureVisibleTab :: "nat \<Rightarrow> jsval \<Rightarrow> jsval \<Rightarrow> js_error + string"
  tab_complete :: "nat \<Rightarrow> int \<Rightarrow> bool"

subsection \<open>The worker's globals\<close>

text \<open>
  \<open>ws\<close> is the index of the current socket among all the sockets created so far
  (\<open>sockets\<close> holds their \<open>readyState\<close>), \<open>reconnectTimer\<close> the last handle returned by
  \<open>setTimeout\<close>, \<open>timers\<close> the timeouts still pending (handle and delay; each runs
  \<open>connectWS\<close>). \<open>sent\<close> are the objects given to \<open>ws.send\<close> (before
  \<open>JSON.stringify\<close>), \<open>warned\<close> those that \<open>wsSend\<close> only logged.
\<close>

record world =
  sockets :: "ready_state list"
  ws :: "nat option"
  reconnectTimer :: "nat option"
  timers :: "(nat \<times> nat) list"
  next_timer :: nat
  activeTabId :: "int option"
  sent :: "jsval list"
  warned :: "jsval list"
  calls :: "call list"

definition RETRY_MS :: nat where
  "RETRY_MS = 1500"

definition actionTypes :: "jsval list" where
  "actionTypes = [JStr ''waitFor'', JStr ''query'', JStr ''click'', JStr ''type'',
                  JStr ''scroll'', JStr ''switchTab'']"

definition initial_world :: world where
  "initial_world =
     \<lparr>sockets = [], ws = None, reconnectTimer = None, timers = [], next_timer = 1,
      activeTabId = None, sent = [], warned = [], calls = []\<rparr>"

definition socket_state :: "world \<Rightarrow> nat \<Rightarrow> ready_state option" where
  "socket_state w i = (if i < length (sockets w) then Some (sockets w ! i) else None)"

text \<open>\<open>ws.readyState\<close>, None while \<open>ws\<close> is undefined.\<close>

definition ws_readyState :: "world \<Rightarrow> ready_state option" where
  "ws_readyState w = (case ws w of None \<Rightarrow> None | Some i \<Rightarrow> socket_state w i)"

subsection \<open>The relay client (lines 11-40)\<close>

definition wsSend :: "jsval \<Rightarrow> world \<Rightarrow> world" where
  "wsSend obj w =
     (if ws_readyState w = Some OPEN
      then w\<lparr>sent := sent w @ [obj]\<rparr>
      else w\<lparr>warned := warned w @ [obj]\<rparr>)"

definition connectWS :: "world \<Rightarrow> world" where
  "connectWS w =
     (if ws_readyState w = Some OPEN \<or> ws_readyState w = Some CONNECTING then w
      else w\<lparr>sockets := sockets w @ [CONNECTING], ws := Some (length (sockets w))\<rparr>)"

definition hello_frame :: jsval where
  "hello_frame = JObj [(''type'', JStr ''hello''), (''role'', JStr ''adapter'')]"

definition boot_ping :: jsval where
  "boot_ping = JObj [(''id'', JStr ''boot-1''), (''cmd'', JStr ''ping'')]"

definition ws_onopen :: "world \<Rightarrow> world" where
  "ws_onopen w = wsSend boot_ping (wsSend hello_frame w)"

definition clearTimeout :: "nat \<Rightarrow> world \<Rightarrow> world" where
  "clearTimeout h w = w\<lparr>timers := filter (\<lambda>(h', d). h' \<noteq> h) (timers w)\<rparr>"

text \<open>\<open>setTimeout(connectWS, ms)\<close>; the new handle ends up in \<open>reconnectTimer\<close>.\<close>

definition setTimeout_connectWS :: "nat \<Rightarrow> world \<Rightarrow> world" where
  "setTimeout_connectWS ms w =
     w\<lparr>timers := timers w @ [(next_timer w, ms)],
       reconnectTimer := Some (next_timer w),
       next_timer := Suc (next_timer w)\<rparr>"

definition ws_onclose :: "world \<Rightarrow> world" where
  "ws_onclose w =
     setTimeout_connectWS RETRY_MS
       (case reconnectTimer w of None \<Rightarrow> w | Some h \<Rightarrow> clearTimeout h w)"

text \<open>\<open>ws.close()\<close> on the current socket: an open or connecting socket starts closing.\<close>

definition ws_close :: "world \<Rightarrow> world" where
  "ws_close w =
     (case ws w of
        None \<Rightarrow> w
      | Some i \<Rightarrow>
          if socket_state w i = Some OPEN \<or> socket_state w i = Some CONNECTING
          then w\<lparr>sockets := (sockets w)[i := CLOSING]\<rparr>
          else w)"

definition ws_onerror :: "world \<Rightarrow> world" where
  "ws_onerror w = ws_close w"

subsection \<open>The tab session manager (lines 42-97)\<close>

definition api :: "call \<Rightarrow> world \<Rightarrow> world" where
  "api c w = w\<lparr>calls := calls w @ [c]\<rparr>"

definition ping_probe :: jsval where
  "ping_probe = JObj [(''type'', JStr ''adapter:ping'')]"

text \<open>The second half of \<open>ensureContentScript\<close>: inject and settle. A failed injection
  is only logged to the console.\<close>

definition inject :: "chrome \<Rightarrow> int \<Rightarrow> world \<Rightarrow> world" where
  "inject env tabId w =
     (case scripting_executeScript env (length (calls w)) tabId of
        None \<Rightarrow> api (Delay 150) (api (ExecuteScript tabId) w)
      | Some e \<Rightarrow> api (Delay 150) (api (ExecuteScript tabId) w))"

text \<open>\<open>ensureContentScript\<close> always returns true; only the world is kept.\<close>

definition ensureContentScript :: "chrome \<Rightarrow> int \<Rightarrow> world \<Rightarrow> world" where
  "ensureContentScript env tabId w =
     (case tabs_sendMessage env (length (calls w)) tabId ping_probe of
        Inl e \<Rightarrow> inject env tabId (api (SendMessage tabId ping_probe) w)
      | Inr pong \<Rightarrow>
          if truthy pong \<and> truthy (js_get pong ''ok'')
          then api (SendMessage tabId ping_probe) w
          else inject env tabId (api (SendMessage tabId ping_probe) w))"

text \<open>The test of line 62 on what \<open>chrome.tabs.sendMessage\<close> threw.\<close>

definition no_receiver :: "js_error \<Rightarrow> bool" where
  "no_receiver e = str_includes (err_text e) ''Receiving end does not exist''"

text \<open>The loop of \<open>sendToContentWithRetry\<close>, by the number of attempts still to make.\<close>

fun sendToContentWithRetry ::
  "chrome \<Rightarrow> int \<Rightarrow> jsval \<Rightarrow> nat \<Rightarrow> world \<Rightarrow> (js_error + jsval) \<times> world" where
  "sendToContentWithRetry env tabId payload 0 w =
     (Inl (Error ''no_receiver_after_retry''), w)"
| "sendToContentWithRetry env tabId payload (Suc k) w =
     (case tabs_sendMessage env (length (calls w)) tabId payload of
        Inr resp \<Rightarrow> (Inr resp, api (SendMessage tabId payload) w)
      | Inl e \<Rightarrow>
          if no_receiver e
          then sendToContentWithRetry env tabId payload k
                 (api (Delay 150)
                    (ensureContentScript env tabId (api (SendMessage tabId payload) w)))
          else (Inl e, api (SendMessage tabId payload) w))"

definition active_query :: jsval where
  "active_query = JObj [(''active'', JBool True), (''currentWindow'', JBool True)]"

definition blank_tab :: jsval where
  "blank_tab = JObj [(''url'', JStr ''about:blank'')]"

definition getOrCreateActiveTab :: "chrome \<Rightarrow> world \<Rightarrow> (js_error + int) \<times> world" where
  "getOrCreateActiveTab env w =
     (let w1 = api (TabsQuery active_query) w
      in case tabs_query env (length (calls w)) active_query of
           Inl e \<Rightarrow> (Inl e, w1)
         | Inr (t # ts) \<Rightarrow> (Inr (tab_id t), w1\<lparr>activeTabId := Some (tab_id t)\<rparr>)
         | Inr [] \<Rightarrow>
             (let w2 = api (TabsCreate blank_tab) w1
              in case tabs_create env (length (calls w1)) blank_tab of
                   Inl e \<Rightarrow> (Inl e, w2)
                 | Inr created \<Rightarrow>
                     (Inr (tab_id created), w2\<lparr>activeTabId := Some (tab_id created)\<rparr>)))"

text \<open>
  \<open>waitForTabComplete\<close>: its listener and its 250 ms interval are not followed event by
  event; the promise resolves when the tab completes first and rejects with
  \<open>tab_load_timeout\<close> otherwise.
\<close>

definition waitForTabComplete ::
  "chrome \<Rightarrow> int \<Rightarrow> nat \<Rightarrow> world \<Rightarrow> (js_error + bool) \<times> world" where
  "waitForTabComplete env tabId timeoutMs w =
     (if tab_complete env (length (calls w)) tabId
      then (Inr True, api (AwaitTabComplete tabId timeoutMs) w)
      else (Inl (Error ''tab_load_timeout''), api (AwaitTabComplete tabId timeoutMs) w))"

text \<open>\<open>activeTabId ?? (await getOrCreateActiveTab())\<close>.\<close>

definition tracked_tab :: "chrome \<Rightarrow> world \<Rightarrow> (js_error + int) \<times> world" where
  "tracked_tab env w =
     (case activeTabId w of
        Some t \<Rightarrow> (Inr t, w)
      | None \<Rightarrow> getOrCreateActiveTab env w)"

subsection \<open>The command router (lines 99-165)\<close>

text \<open>
  Each branch of \<open>handleControllerCommand\<close> is a function of its own. It returns the
  exception that leaves it, if any (the outer \<open>catch\<close> of line 162 then answers), and
  the world.
\<close>

definition tab_num :: "int \<Rightarrow> jsval" where
  "tab_num t = JNum (of_int t)"

definition opt_str :: "string option \<Rightarrow> jsval" where
  "opt_str s = (case s of None \<Rightarrow> JUndefined | Some x \<Rightarrow> JStr x)"

text \<open>\<open>navigate\<close> (lines 102-109).\<close>

definition navigate_branch :: "chrome \<Rightarrow> jsval \<Rightarrow> jsval \<Rightarrow> world \<Rightarrow> js_error option \<times> world" where
  "navigate_branch env i args w =
     (case getOrCreateActiveTab env w of
        (Inl e, w1) \<Rightarrow> (Some e, w1)
      | (Inr tabId, w1) \<Rightarrow>
          (case read_prop args ''url'' of
             Inl e \<Rightarrow> (Some e, w1)
           | Inr url \<Rightarrow>
               (let upd = JObj [(''url'', url)];
                    w2 = api (TabsUpdate tabId upd) w1
                in case tabs_update env (length (calls w1)) tabId upd of
                     Some e \<Rightarrow> (Some e, w2)
                   | None \<Rightarrow>
                       (case waitForTabComplete env tabId 20000 w2 of
                          (Inl e, w3) \<Rightarrow> (Some e, w3)
                        | (Inr b, w3) \<Rightarrow>
                            (None,
                             wsSend (ok_reply i (JObj [(''tabId'', tab_num tabId), (''url'', url)]))
                               (ensureContentScript env tabId w3))))))"

definition cmd_payload :: "jsval \<Rightarrow> jsval \<Rightarrow> jsval \<Rightarrow> jsval" where
  "cmd_payload i cmd args =
     JObj [(''type'', JStr ''adapter:cmd''), (''id'', i), (''cmd'', cmd), (''args'', args)]"

text \<open>The commands of \<open>actionTypes\<close> (lines 111-119).\<close>

definition action_branch ::
  "chrome \<Rightarrow> jsval \<Rightarrow> jsval \<Rightarrow> jsval \<Rightarrow> world \<Rightarrow> js_error option \<times> world" where
  "action_branch env i cmd args w =
     (case tracked_tab env w of
        (Inl e, w1) \<Rightarrow> (Some e, w1)
      | (Inr tabId, w1) \<Rightarrow>
          (case sendToContentWithRetry env tabId (cmd_payload i cmd args) 2
                  (ensureContentScript env tabId w1) of
             (Inl e, w2) \<Rightarrow> (None, wsSend (error_reply i e) w2)
           | (Inr resp, w2) \<Rightarrow>
               (None, if resp \<noteq> JUndefined then wsSend resp w2 else w2)))"

text \<open>\<open>tabs[index]\<close> for an integral index: undefined outside the array.\<close>

fun tab_at :: "tab list \<Rightarrow> jsval \<Rightarrow> tab option" where
  "tab_at tabs (JNum q) =
     (if 0 \<le> \<lfloor>q\<rfloor> \<and> nat \<lfloor>q\<rfloor> < length tabs then Some (tabs ! nat \<lfloor>q\<rfloor>) else None)"
| "tab_at tabs v = None"

text \<open>The target of \<open>switchTab\<close> (lines 124-127): index, then title, then URL.\<close>

definition find_target :: "js_runtime \<Rightarrow> tab list \<Rightarrow> jsval \<Rightarrow> jsval \<Rightarrow> jsval \<Rightarrow> tab option" where
  "find_target rt tabs index title urlMatch =
     (let t1 = (if Number_isInteger index then tab_at tabs index else None);
          t2 = (if t1 = None \<and> truthy title
                then find (\<lambda>t. str_includes (case tab_title t of None \<Rightarrow> [] | Some x \<Rightarrow> x)
                                  (ToString rt title)) tabs
                else t1);
          t3 = (if t2 = None \<and> truthy urlMatch
                then find (\<lambda>t. str_includes (case tab_url t of None \<Rightarrow> [] | Some x \<Rightarrow> x)
                                  (ToString rt urlMatch)) tabs
                else t2)
      in t3)"

definition all_tabs_query :: jsval where
  "all_tabs_query = JObj []"

definition make_active :: jsval where
  "make_active = JObj [(''active'', JBool True)]"

text \<open>The \<open>switchTab\<close> branch (lines 121-133).\<close>

definition switchTab_branch ::
  "js_runtime \<Rightarrow> chrome \<Rightarrow> jsval \<Rightarrow> jsval \<Rightarrow> world \<Rightarrow> js_error option \<times> world" where
  "switchTab_branch rt env i args w =
     (if nullish args then (Some (destructure_of_null ''index''), w)
      else
        let w1 = api (TabsQuery all_tabs_query) w
        in case tabs_query env (length (calls w)) all_tabs_query of
             Inl e \<Rightarrow> (Some e, w1)
           | Inr tabs \<Rightarrow>
               (case find_target rt tabs (js_get args ''index'') (js_get args ''title'')
                       (js_get args ''urlMatch'') of
                  None \<Rightarrow> (None, wsSend (fail_reply i ''tab_not_found'') w1)
                | Some target \<Rightarrow>
                    (let w2 = api (TabsUpdate (tab_id target) make_active) w1
                     in case tabs_update env (length (calls w1)) (tab_id target) make_active of
                          Some e \<Rightarrow> (Some e, w2)
                        | None \<Rightarrow>
                            (None,
                             wsSend (ok_reply i
                                       (JObj [(''tabId'', tab_num (tab_id target)),
                                              (''title'', opt_str (tab_title target)),
                                              (''url'', opt_str (tab_url target))]))
                               (w2\<lparr>activeTabId := Some (tab_id target)\<rparr>)))))"

text \<open>The \<open>screenshot\<close> branch (lines 135-145).\<close>

definition screenshot_branch ::
  "chrome \<Rightarrow> jsval \<Rightarrow> jsval \<Rightarrow> world \<Rightarrow> js_error option \<times> world" where
  "screenshot_branch env i args w =
     (case tracked_tab env w of
        (Inl e, w1) \<Rightarrow> (Some e, w1)
      | (Inr tabId, w1) \<Rightarrow>
          (let format = dflt (js_get (js_or args (JObj [])) ''format'') (JStr ''png'');
               opts = JObj [(''format'', format)];
               w2 = api (CaptureVisibleTab JUndefined opts) w1
           in case tabs_captureVisibleTab env (length (calls w1)) JUndefined opts of
                Inl e \<Rightarrow> (None, wsSend (error_reply i e) w2)
              | Inr dataUrl \<Rightarrow>
                  (None, wsSend (ok_reply i (JObj [(''dataUrl'', JStr dataUrl)])) w2)))"

text \<open>The \<open>openTab\<close> branch (lines 147-158).\<close>

definition openTab_branch ::
  "chrome \<Rightarrow> jsval \<Rightarrow> jsval \<Rightarrow> world \<Rightarrow> js_error option \<times> world" where
  "openTab_branch env i args w =
     (let url = js_get (js_or args (JObj [])) ''url'';
          active = dflt (js_get (js_or args (JObj [])) ''active'') (JBool True)
      in if \<not> truthy url then (None, wsSend (fail_reply i ''missing_url'') w)
         else
           let props = JObj [(''url'', url), (''active'', active)];
               w1 = api (TabsCreate props) w
           in case tabs_create env (length (calls w)) props of
                Inl e \<Rightarrow> (None, wsSend (error_reply i e) w1)
              | Inr t \<Rightarrow>
                  (None,
                   wsSend (ok_reply i (JObj [(''tabId'', tab_num (tab_id t)),
                                             (''url'', opt_str (tab_url t))]))
                     (w1\<lparr>activeTabId := Some (tab_id t)\<rparr>)))"

text \<open>The \<open>try\<close> block of lines 101-161: the first branch whose test holds.\<close>

definition dispatch ::
  "js_runtime \<Rightarrow> chrome \<Rightarrow> jsval \<Rightarrow> jsval \<Rightarrow> jsval \<Rightarrow> world \<Rightarrow> js_error option \<times> world" where
  "dispatch rt env i cmd args w =
     (if cmd = JStr ''navigate'' then navigate_branch env i args w
      else if cmd \<in> set actionTypes then action_branch env i cmd args w
      else if cmd = JStr ''switchTab'' then switchTab_branch rt env i args w
      else if cmd = JStr ''screenshot'' then screenshot_branch env i args w
      else if cmd = JStr ''openTab'' then openTab_branch env i args w
      else if cmd = JStr ''ping'' then (None, wsSend (ok_reply i (JStr ''pong'')) w)
      else (None, wsSend (fail_reply i ''unknown_command'') w))"

text \<open>\<open>handleControllerCommand(msg)\<close>, for a \<open>msg\<close> that is not null or undefined.\<close>

definition handleControllerCommand :: "js_runtime \<Rightarrow> chrome \<Rightarrow> jsval \<Rightarrow> world \<Rightarrow> world" where
  "handleControllerCommand rt env msg w =
     (case dispatch rt env (js_get msg ''id'') (js_get msg ''cmd'')
             (dflt (js_get msg ''args'') (JObj [])) w of
        (None, w') \<Rightarrow> w'
      | (Some e, w') \<Rightarrow> wsSend (error_reply (js_get msg ''id'') e) w')"

text \<open>\<open>ws.onmessage\<close> (lines 27-32).\<close>

definition ws_onmessage :: "js_runtime \<Rightarrow> chrome \<Rightarrow> string \<Rightarrow> world \<Rightarrow> world" where
  "ws_onmessage rt env data w =
     (case JSON_parse rt data of
        None \<Rightarrow> w
      | Some msg \<Rightarrow>
          if \<not> truthy msg \<or> \<not> truthy (js_get msg ''cmd'') then w
          else handleControllerCommand rt env msg w)"

text \<open>The listener of line 179, for result-shaped messages from a content script.\<close>

definition runtime_onMessage :: "jsval \<Rightarrow> world \<Rightarrow> world" where
  "runtime_onMessage msg w =
     (if truthy msg
         \<and> (js_get msg ''ok'' = JBool True \<or> js_get msg ''ok'' = JBool False)
         \<and> truthy (js_get msg ''id'')
      then wsSend msg w else w)"

subsection \<open>The worker as an event loop\<close>

text \<open>
  What the browser delivers to the worker: the four socket events of the socket with
  the given index, a reconnect timeout that fires, a wake-up that calls \<open>connectWS\<close>
  (install, startup, the keep-alive alarm, a committed navigation, a click on the
  icon), a tab activation (lines 167 and 177) and a runtime message (line 179).
  An event that the socket's state or the timer table excludes changes nothing.
\<close>

datatype event =
    SocketOpen nat
  | SocketMessage nat string
  | SocketClose nat
  | SocketError nat
  | TimerFired nat
  | Wake
  | TabActivated int
  | RuntimeMessage jsval

definition set_socket :: "nat \<Rightarrow> ready_state \<Rightarrow> world \<Rightarrow> world" where
  "set_socket i st w = w\<lparr>sockets := (sockets w)[i := st]\<rparr>"

fun step :: "js_runtime \<Rightarrow> chrome \<Rightarrow> world \<Rightarrow> event \<Rightarrow> world" where
  "step rt env w (SocketOpen i) =
     (if socket_state w i = Some CONNECTING then ws_onopen (set_socket i OPEN w) else w)"
| "step rt env w (SocketMessage i d) =
     (if socket_state w i = Some OPEN then ws_onmessage rt env d w else w)"
| "step rt env w (SocketClose i) =
     (if socket_state w i = None \<or> socket_state w i = Some CLOSED then w
      else ws_onclose (set_socket i CLOSED w))"
| "step rt env w (SocketError i) =
     (if socket_state w i = None then w else ws_onerror w)"
| "step rt env w (TimerFired h) =
     (if h \<in> fst ` set (timers w) then connectWS (clearTimeout h w) else w)"
| "step rt env w Wake = connectWS w"
| "step rt env w (TabActivated t) = connectWS (w\<lparr>activeTabId := Some t\<rparr>)"
| "step rt env w (RuntimeMessage m) = runtime_onMessage m w"

text \<open>The worker after a sequence of events, from the start of the script (the
  \<open>connectWS()\<close> of line 180 included).\<close>

definition run :: "js_runtime \<Rightarrow> chrome \<Rightarrow> event list \<Rightarrow> world" where
  "run rt env evs = foldl (step rt env) (connectWS initial_world) evs"

section \<open>Notions used by the properties\<close>

subsection \<open>What the specification says\<close>

text \<open>
  The specification's rule for \<open>limit\<close>, in its own words: the result is cut to
  \<open>limit\<close> elements if and only if \<open>limit\<close> is a non-negative integer.
\<close>

definition spec_limit :: "jsval list \<Rightarrow> jsval \<Rightarrow> jsval list" where
  "spec_limit out limit =
     (case limit of
        JNum q \<Rightarrow> if of_int \<lfloor>q\<rfloor> = q \<and> 0 \<le> q then take (nat \<lfloor>q\<rfloor>) out else out
      | _ \<Rightarrow> out)"

text \<open>
  The rule the script follows: any integer cuts the list, a negative one \<open>-k\<close> by
  dropping the last \<open>k\<close> results.
\<close>

definition limit_results :: "jsval list \<Rightarrow> jsval \<Rightarrow> jsval list" where
  "limit_results out limit =
     (case limit of
        JNum q \<Rightarrow>
          if of_int \<lfloor>q\<rfloor> = q
          then (if 0 \<le> q then take (nat \<lfloor>q\<rfloor>) out
                else take (length out - nat (- \<lfloor>q\<rfloor>)) out)
          else out
      | _ \<Rightarrow> out)"

text \<open>An event that happens no later than 10000 ms after \<open>start\<close>.\<close>

definition in_time :: "int \<Rightarrow> wait_event \<Rightarrow> bool" where
  "in_time start ev = (case ev of Mutation q \<Rightarrow> True | PollTick q now \<Rightarrow> now - start \<le> 10000)"

text \<open>An event at which the selector does not match, and one at which the lookup
  throws.\<close>

definition no_match :: "wait_event \<Rightarrow> bool" where
  "no_match ev = (case ev of Mutation q \<Rightarrow> q = Inr False | PollTick q now \<Rightarrow> q = Inr False)"

definition lookup_throws :: "wait_event \<Rightarrow> bool" where
  "lookup_throws ev = (case ev of Mutation q \<Rightarrow> isl q | PollTick q now \<Rightarrow> isl q)"

text \<open>The promise of \<open>waitForSelector\<close> as it is created, and as the timeout leaves it.\<close>

definition created :: wait_state where
  "created = \<lparr>observer_connected = True, poll_active = True, settled = None\<rparr>"

definition timed_out :: wait_state where
  "timed_out =
     \<lparr>observer_connected = False, poll_active = False,
      settled = Some (Inl (Error ''waitFor_timeout''))\<rparr>"

definition not_rejected :: "wait_state \<Rightarrow> bool" where
  "not_rejected s = (settled s = None \<or> settled s = Some (Inr True))"

text \<open>The calls made between two worlds.\<close>

definition new_calls :: "world \<Rightarrow> world \<Rightarrow> call list" where
  "new_calls w w' = drop (length (calls w)) (calls w')"

subsection \<open>Parts of the world\<close>

text \<open>The relay client's part of the world, and the frames.\<close>

definition relay ::
  "world \<Rightarrow> ready_state list \<times> nat option \<times> nat option \<times> (nat \<times> nat) list \<times> nat" where
  "relay w = (sockets w, ws w, reconnectTimer w, timers w, next_timer w)"

definition frames :: "world \<Rightarrow> jsval list \<times> jsval list" where
  "frames w = (sent w, warned w)"

definition rs_of ::
  "ready_state list \<times> nat option \<times> nat option \<times> (nat \<times> nat) list \<times> nat \<Rightarrow> ready_state option" where
  "rs_of r =
     (case r of
        (socks, cur, rest) \<Rightarrow>
          (case cur of
             None \<Rightarrow> None
           | Some i \<Rightarrow> if i < length socks then Some (socks ! i) else None))"

text \<open>What a branch of the router does to the frames while the socket is open: one
  frame with the command's id, or none when an exception leaves the branch.\<close>

definition answers :: "jsval \<Rightarrow> world \<Rightarrow> js_error option \<times> world \<Rightarrow> bool" where
  "answers i w rw =
     (case rw of
        (None, w') \<Rightarrow>
          (\<exists>x. frames w' = (fst (frames w) @ [x], snd (frames w)) \<and> js_get x ''id'' = i)
      | (Some e, w') \<Rightarrow> frames w' = frames w)"

text \<open>Invariants of the event loop: only the current socket can be connecting or open,
  and every pending timeout has the one delay.\<close>

definition current_only :: "world \<Rightarrow> bool" where
  "current_only w =
     (\<forall>i < length (sockets w).
        sockets w ! i = CONNECTING \<or> sockets w ! i = OPEN \<longrightarrow> ws w = Some i)"

definition fixed_delay :: "world \<Rightarrow> bool" where
  "fixed_delay w = (\<forall>(h, d) \<in> set (timers w). d = RETRY_MS)"

definition relay_ok :: "world \<Rightarrow> bool" where
  "relay_ok w = (current_only w \<and> fixed_delay w)"

subsection \<open>Example inputs\<close>

text \<open>A runtime that parses three texts, and coerces nothing of interest.\<close>

definition rt0 :: js_runtime where
  "rt0 =
     \<lparr>JSON_parse = (\<lambda>s. if s = ''{}'' then Some (JObj [])
                        else if s = ''null'' then Some JNull
                        else if s = ''42'' then Some (JNum 42)
                        else None),
      ToNumber_of = (\<lambda>v. None),
      ToString_of = (\<lambda>v. [])\<rparr>"

text \<open>A page where no selector matches, and a page with five list items.\<close>

definition blank_page :: document where
  "blank_page =
     \<lparr>querySelector = (\<lambda>s. Inr None),
      querySelectorAll = (\<lambda>s. Inr []),
      elementFromPoint = (\<lambda>x y. Inr None),
      body_scrollHeight = 0\<rparr>"

definition item :: "nat \<Rightarrow> string \<Rightarrow> element" where
  "item n t = \<lparr>node = n, getAttribute = (\<lambda>a. None), innerText = Some t, form = None\<rparr>"

definition five_items :: "element list" where
  "five_items = [item 1 '' a'', item 2 ''b '', item 3 ''c'', item 4 ''d'', item 5 ''e'']"

definition list_page :: document where
  "list_page =
     \<lparr>querySelector = (\<lambda>s. if s = JStr ''li'' then Inr (Some (item 1 '' a'')) else Inr None),
      querySelectorAll = (\<lambda>s. if s = JStr ''li'' then Inr five_items else Inr []),
      elementFromPoint = (\<lambda>x y. Inr None),
      body_scrollHeight = 0\<rparr>"

definition docs_tab :: tab where
  "docs_tab = \<lparr>tab_id = 1, tab_title = Some ''Docs'', tab_url = Some ''https://docs.example/''\<rparr>"

definition gmail_tab :: tab where
  "gmail_tab =
     \<lparr>tab_id = 2, tab_title = Some ''Inbox - Gmail'', tab_url = Some ''https://mail.google.com/''\<rparr>"

text \<open>
  A browser with these two tabs, the first one visible in the current window, and the
  content script above answering in each (on a page where nothing matches). A tab it
  creates gets the id 3; a capture shows the visible tab.
\<close>

definition browser0 :: chrome where
  "browser0 =
     \<lparr>tabs_sendMessage = (\<lambda>n t payload.
          case response (cs_onMessage rt0 blank_page 0 [] payload) of
            None \<Rightarrow> Inr JUndefined
          | Some r \<Rightarrow> Inr r),
      scripting_executeScript = (\<lambda>n t. None),
      tabs_query = (\<lambda>n q. if q = active_query then Inr [docs_tab] else Inr [docs_tab, gmail_tab]),
      tabs_create = (\<lambda>n props. Inr \<lparr>tab_id = 3, tab_title = None, tab_url = Some []\<rparr>),
      tabs_update = (\<lambda>n t u. None),
      tabs_captureVisibleTab = (\<lambda>n win opts. Inr ''data:image/png;base64,DOCS''),
      tab_complete = (\<lambda>n t. True)\<rparr>"

definition pong :: jsval where
  "pong = JObj [(''ok'', JBool True), (''type'', JStr ''adapter:pong'')]"

definition no_receiver_error :: js_error where
  "no_receiver_error =
     JsError ''Error'' ''Could not establish connection. Receiving end does not exist.''"

text \<open>A browser whose tab has no receiver during the first three calls, and one whose
  tab never has.\<close>

definition flaky_browser :: chrome where
  "flaky_browser =
     browser0\<lparr>tabs_sendMessage := (\<lambda>n t payload.
        if payload = ping_probe then Inr pong
        else if n < 3 then Inl no_receiver_error
        else Inr (fail_reply (JStr ''c1'') ''element_not_found''))\<rparr>"

definition deaf_browser :: chrome where
  "deaf_browser = browser0\<lparr>tabs_sendMessage := (\<lambda>n t payload. Inl no_receiver_error)\<rparr>"

text \<open>The worker with its socket open and tab 1 tracked.\<close>

definition connected :: world where
  "connected =
     \<lparr>sockets = [OPEN], ws = Some 0, reconnectTimer = None, timers = [], next_timer = 1,
      activeTabId = Some 1, sent = [], warned = [], calls = []\<rparr>"

definition switch_msg :: jsval where
  "switch_msg =
     JObj [(''id'', JStr ''s1''), (''cmd'', JStr ''switchTab''),
           (''args'', JObj [(''index'', JNum 7), (''title'', JStr ''Gmail'')])]"

definition open_msg :: jsval where
  "open_msg =
     JObj [(''id'', JStr ''o1''), (''cmd'', JStr ''openTab''),
           (''args'', JObj [(''url'', JStr ''https://b.example/''), (''active'', JBool False)])]"

definition shot_msg :: jsval where
  "shot_msg = JObj [(''id'', JStr ''p1''), (''cmd'', JStr ''screenshot'')]"

definition click_msg :: jsval where
  "click_msg =
     JObj [(''id'', JStr ''c1''), (''cmd'', JStr ''click''),
           (''args'', JObj [(''selector'', JStr ''#go'')])]"

definition click_payload :: jsval where
  "click_payload =
     cmd_payload (JStr ''c1'') (JStr ''click'') (JObj [(''selector'', JStr ''#go'')])"

definition null_click_msg :: jsval where
  "null_click_msg = JObj [(''id'', JStr ''c9''), (''cmd'', JStr ''click''), (''args'', JNull)]"

text \<open>What \<open>querySelector("")\<close> throws, and a page of a real browser in this respect:
  the empty selector is refused, any other selector matches nothing.\<close>

definition empty_selector_error :: js_error where
  "empty_selector_error = JsError ''SyntaxError'' ''The provided selector is empty.''"

definition strict_page :: document where
  "strict_page =
     blank_page\<lparr>querySelector := (\<lambda>s. if s = JStr [] then Inl empty_selector_error else Inr None)\<rparr>"

definition ping_msg :: jsval where
  "ping_msg = JObj [(''id'', JStr ''k1''), (''cmd'', JStr ''ping'')]"

section \<open>Properties of the relay client\<close>

subsection \<open>Frames that are not commands\<close>

text \<open>
  Claim C9. An inbound frame that is not valid JSON, or whose parsed value has no
  \<open>cmd\<close> field (also when the value is null, a number or any other non-object, and
  when \<open>cmd\<close> is present but falsy), leaves the worker exactly as it was: nothing is
  sent, nothing is logged as undeliverable, and no browser call is made.
\<close>

theorem malformed_frame_is_dropped:
  assumes "JSON_parse rt frame = None
         \<or> (\<exists>msg. JSON_parse rt frame = Some msg
                  \<and> (\<not> truthy msg \<or> \<not> truthy (js_get msg ''cmd'')))"
  shows "ws_onmessage rt env frame w = w"
  using assms by (auto simp: ws_onmessage_def)

theorem malformed_frame_is_dropped_witness:
  "ws_onmessage rt0 browser0 ''<html>'' connected = connected
   \<and> ws_onmessage rt0 browser0 ''{}'' connected = connected
   \<and> ws_onmessage rt0 browser0 ''42'' connected = connected
   \<and> js_get (JObj []) ''cmd'' = JUndefined
   \<and> JSON_parse rt0 ''<html>'' = None"
  using malformed_frame_is_dropped [of rt0 "''<html>''" browser0 connected]
        malformed_frame_is_dropped [of rt0 "''{}''" browser0 connected]
        malformed_frame_is_dropped [of rt0 "''42''" browser0 connected]
  by (simp add: rt0_def)

section \<open>Properties of the content script\<close>

subsection \<open>The resources of waitForSelector\<close>

text \<open>The interval's callback clears the interval and disconnects the observer on
  both of its paths; the observer's callback only disconnects the observer.\<close>

lemma poll_callback_tears_down:
  assumes "settled s = None" and "settled (poll_callback rt start timeoutMs s q now) \<noteq> None"
  shows "\<not> observer_connected (poll_callback rt start timeoutMs s q now)
       \<and> \<not> poll_active (poll_callback rt start timeoutMs s q now)"
  using assms
  by (cases q) (auto simp: poll_callback_def resolve_def reject_def Let_def split: if_splits)

lemma observer_callback_keeps_poll:
  "poll_active (observer_callback s q) = poll_active s"
  by (cases q) (simp_all add: observer_callback_def resolve_def)

lemma observer_callback_match:
  assumes "settled s = None"
  shows "settled (observer_callback s (Inr True)) = Some (Inr True)
       \<and> \<not> observer_connected (observer_callback s (Inr True))"
  using assms by (simp add: observer_callback_def resolve_def)

text \<open>While every lookup throws, neither callback gets past its first line: the
  promise stays pending and both resources stay, whatever the clock says.\<close>

lemma throwing_lookup_never_settles:
  assumes "list_all lookup_throws evs"
  shows "foldl (wait_step rt start timeoutMs) created evs = created"
  using assms
proof (induction evs)
  case Nil
  then show ?case by simp
next
  case (Cons ev evs)
  then show ?case
    by (cases ev)
       (auto simp: created_def lookup_throws_def observer_callback_def poll_callback_def isl_def
          split: sum.splits)
qed

text \<open>
  Claim C5. The claim does not hold of the script. When the observer sees the match
  (a mutation adds the element before the next tick), the promise resolves with the
  interval still running: line 12 disconnects the observer and no \<open>clearInterval\<close>
  follows. The interval outlives the command until a later tick finds the element or
  the timeout; here it is still running after a tick at which the element is gone
  again.
\<close>

theorem observer_match_leaves_interval:
  "waitForSelector rt0 blank_page 0 [Mutation (Inr True)] (JStr ''#late'') (JNum 200)
     = \<lparr>observer_connected = False, poll_active = True, settled = Some (Inr True)\<rparr>
   \<and> waitForSelector rt0 blank_page 0 [Mutation (Inr True), PollTick (Inr False) 150]
       (JStr ''#late'') (JNum 200)
     = \<lparr>observer_connected = False, poll_active = True, settled = Some (Inr True)\<rparr>"
  by (simp add: waitForSelector_def blank_page_def dflt_def observer_callback_def resolve_def
      poll_callback_def js_gt_def ToNumber_def)

subsection \<open>The timeout of waitFor\<close>

lemma js_gt_default: "js_gt rt n (JNum 10000) = (10000 < n)"
  by (simp add: js_gt_def ToNumber_def)

lemma wait_step_in_time:
  "not_rejected s \<Longrightarrow> in_time start ev \<Longrightarrow> not_rejected (wait_step rt start (JNum 10000) s ev)"
  by (cases ev; cases "settled s")
     (auto simp: not_rejected_def in_time_def observer_callback_def poll_callback_def
        resolve_def reject_def js_gt_default Let_def split: sum.splits)

lemma wait_run_in_time:
  "not_rejected s \<Longrightarrow> list_all (in_time start) evs \<Longrightarrow>
   not_rejected (foldl (wait_step rt start (JNum 10000)) s evs)"
  by (induction evs arbitrary: s) (simp_all add: wait_step_in_time)

text \<open>With the default timeout and no event later than 10000 ms, the promise is pending
  or resolved, or it carries the exception of the immediate lookup.\<close>

lemma waitForSelector_in_time:
  assumes "list_all (in_time start) evs"
  shows "not_rejected (waitForSelector rt doc start evs selector (JNum 10000))
       \<or> (\<exists>e. truthy selector \<and> querySelector doc selector = Inl e
              \<and> settled (waitForSelector rt doc start evs selector (JNum 10000)) = Some (Inl e))"
proof -
  let ?q = "if truthy selector then querySelector doc selector else Inr None"
  have nr: "not_rejected (foldl (wait_step rt start (JNum 10000))
              \<lparr>observer_connected = True, poll_active = True, settled = None\<rparr> evs)"
    by (rule wait_run_in_time[OF _ assms]) (simp add: not_rejected_def)
  show ?thesis
  proof (cases ?q)
    case (Inl e)
    then show ?thesis
      by (auto simp: waitForSelector_def dflt_def split: if_splits)
  next
    case (Inr r)
    with nr show ?thesis
      by (cases r) (auto simp: waitForSelector_def dflt_def not_rejected_def split: if_splits)
  qed
qed

lemma cmd_waitFor_default:
  assumes "\<not> truthy (js_get (JObj kvs) ''timeoutMs'')"
  shows "cmd_waitFor rt doc start evs i (JObj kvs) =
         cmd_waitFor rt doc start evs i (JObj ((''timeoutMs'', JNum 10000) # kvs))"
  using assms by (simp add: cmd_waitFor_def read_prop_def nullish_def js_or_def)

lemma waitFor_message:
  "cs_onMessage rt doc start evs (cmd_payload i (JStr ''waitFor'') args) =
   cmd_waitFor rt doc start evs i (dflt args (JObj []))"
  by (simp add: cs_onMessage_def cmd_payload_def opt_prop_def nullish_def run_command_def)

text \<open>With the default timeout, events at which the selector does not match leave the
  promise as it was created while none of them is later than 10000 ms; in any case
  they leave it so or timed out.\<close>

lemma no_match_in_time:
  "list_all no_match pre \<Longrightarrow> list_all (in_time start) pre \<Longrightarrow>
   foldl (wait_step rt start (JNum 10000)) created pre = created"
proof (induction pre)
  case Nil
  then show ?case by simp
next
  case (Cons ev pre)
  then show ?case
    by (cases ev)
       (auto simp: created_def no_match_def in_time_def observer_callback_def poll_callback_def
          js_gt_default)
qed

lemma no_match_any_time:
  "list_all no_match pre \<Longrightarrow> s = created \<or> s = timed_out \<Longrightarrow>
   foldl (wait_step rt start (JNum 10000)) s pre = created
   \<or> foldl (wait_step rt start (JNum 10000)) s pre = timed_out"
proof (induction pre arbitrary: s)
  case Nil
  then show ?case by simp
next
  case (Cons ev pre)
  have "wait_step rt start (JNum 10000) s ev = created
      \<or> wait_step rt start (JNum 10000) s ev = timed_out"
    using Cons.prems
    by (cases ev)
       (auto simp: created_def timed_out_def no_match_def observer_callback_def
          poll_callback_def js_gt_default reject_def)
  with Cons.IH[of "wait_step rt start (JNum 10000) s ev"] Cons.prems(1)
  show ?case by simp
qed

lemma late_tick_times_out:
  assumes "s = created \<or> s = timed_out" and "10000 < now - start"
  shows "wait_step rt start (JNum 10000) s (PollTick (Inr False) now) = timed_out"
  using assms
  by (auto simp: created_def timed_out_def poll_callback_def js_gt_default reject_def)

text \<open>The handler with a falsy \<open>timeoutMs\<close>, once the immediate check has found nothing:
  its outcome is that of the events under the timeout 10000.\<close>

lemma waitFor_falsy_timeout_outcome:
  assumes "\<not> truthy (js_get (JObj kvs) ''timeoutMs'')"
    and "(if truthy (js_get (JObj kvs) ''selector'')
          then querySelector doc (js_get (JObj kvs) ''selector'') else Inr None) = Inr None"
  shows "cs_onMessage rt doc start evs (cmd_payload i (JStr ''waitFor'') (JObj kvs)) =
         \<lparr>response =
            (case settled (foldl (wait_step rt start (JNum 10000)) created evs) of
               None \<Rightarrow> None
             | Some (Inl e) \<Rightarrow> Some (error_reply i e)
             | Some (Inr b) \<Rightarrow>
                 Some (ok_reply i (JObj [(''waitedFor'', js_get (JObj kvs) ''selector'')]))),
          effects = [],
          waiting = Some (foldl (wait_step rt start (JNum 10000)) created evs)\<rparr>"
proof -
  have w: "waitForSelector rt doc start evs (js_get (JObj kvs) ''selector'') (JNum 10000)
           = foldl (wait_step rt start (JNum 10000)) created evs"
    using assms(2) by (simp add: waitForSelector_def dflt_def created_def del: js_get.simps)
  show ?thesis
    using assms(1)
    by (simp add: waitFor_message dflt_def cmd_waitFor_def read_prop_def nullish_def js_or_def
        Let_def w del: js_get.simps)
qed

text \<open>
  Claim C10. A \<open>waitFor\<close> whose \<open>args.timeoutMs\<close> is absent or falsy (0, null, false, the
  empty string) runs under the timeout 10000 ms, not under the value supplied. It
  behaves exactly as the same command with \<open>timeoutMs = 10000\<close>. While no event is
  later than 10000 ms after the call its reply is never a timeout: there is no reply
  yet, or the success reply, or the failure carrying the exception that the immediate
  lookup threw. And when the selector matches neither at the call nor at the events
  \<open>pre\<close>, the tick that follows them decides by that one bound: later than 10000 ms
  after the call it gives the reply \<open>waitFor_timeout\<close> with both resources released;
  if it and \<open>pre\<close> are no later than that, the command stays pending when the tick
  finds no match and gets the success reply when the tick finds one.
\<close>

theorem waitFor_falsy_timeout_is_default:
  assumes "\<not> truthy (js_get (JObj kvs) ''timeoutMs'')"
  shows "cs_onMessage rt doc start evs (cmd_payload i (JStr ''waitFor'') (JObj kvs)) =
         cs_onMessage rt doc start evs
           (cmd_payload i (JStr ''waitFor'') (JObj ((''timeoutMs'', JNum 10000) # kvs)))
       \<and> (list_all (in_time start) evs \<longrightarrow>
            response (cs_onMessage rt doc start evs (cmd_payload i (JStr ''waitFor'') (JObj kvs))) = None
          \<or> response (cs_onMessage rt doc start evs (cmd_payload i (JStr ''waitFor'') (JObj kvs)))
               = Some (ok_reply i (JObj [(''waitedFor'', js_get (JObj kvs) ''selector'')]))
          \<or> (\<exists>e. querySelector doc (js_get (JObj kvs) ''selector'') = Inl e
                 \<and> response (cs_onMessage rt doc start evs (cmd_payload i (JStr ''waitFor'') (JObj kvs)))
                      = Some (error_reply i e)))
       \<and> ((if truthy (js_get (JObj kvs) ''selector'')
            then querySelector doc (js_get (JObj kvs) ''selector'') else Inr None) = Inr None
          \<and> list_all no_match pre \<longrightarrow>
            (10000 < now - start \<longrightarrow>
               cs_onMessage rt doc start (pre @ [PollTick (Inr False) now])
                 (cmd_payload i (JStr ''waitFor'') (JObj kvs)) =
               \<lparr>response = Some (fail_reply i ''waitFor_timeout''), effects = [],
                waiting = Some timed_out\<rparr>)
          \<and> (now - start \<le> 10000 \<and> list_all (in_time start) pre \<longrightarrow>
               cs_onMessage rt doc start (pre @ [PollTick (Inr False) now])
                 (cmd_payload i (JStr ''waitFor'') (JObj kvs)) =
               \<lparr>response = None, effects = [], waiting = Some created\<rparr>
             \<and> cs_onMessage rt doc start (pre @ [PollTick (Inr True) now])
                 (cmd_payload i (JStr ''waitFor'') (JObj kvs)) =
               \<lparr>response = Some (ok_reply i (JObj [(''waitedFor'', js_get (JObj kvs) ''selector'')])),
                effects = [],
                waiting = Some \<lparr>observer_connected = False, poll_active = False,
                                settled = Some (Inr True)\<rparr>\<rparr>))"
proof (intro conjI impI)
  show "cs_onMessage rt doc start evs (cmd_payload i (JStr ''waitFor'') (JObj kvs)) =
        cs_onMessage rt doc start evs
          (cmd_payload i (JStr ''waitFor'') (JObj ((''timeoutMs'', JNum 10000) # kvs)))"
    using cmd_waitFor_default[OF assms] by (simp add: waitFor_message dflt_def)
next
  assume t: "list_all (in_time start) evs"
  let ?sel = "js_get (JObj kvs) ''selector''"
  let ?w = "waitForSelector rt doc start evs ?sel (JNum 10000)"
  have r: "response (cs_onMessage rt doc start evs (cmd_payload i (JStr ''waitFor'') (JObj kvs))) =
           (case settled ?w of
              None \<Rightarrow> None
            | Some (Inl e) \<Rightarrow> Some (error_reply i e)
            | Some (Inr b) \<Rightarrow> Some (ok_reply i (JObj [(''waitedFor'', ?sel)])))"
    using assms
    by (simp add: waitFor_message dflt_def cmd_waitFor_def read_prop_def nullish_def js_or_def
        Let_def del: js_get.simps)
  from waitForSelector_in_time[OF t, of rt doc ?sel]
  show "response (cs_onMessage rt doc start evs (cmd_payload i (JStr ''waitFor'') (JObj kvs))) = None
      \<or> response (cs_onMessage rt doc start evs (cmd_payload i (JStr ''waitFor'') (JObj kvs)))
           = Some (ok_reply i (JObj [(''waitedFor'', ?sel)]))
      \<or> (\<exists>e. querySelector doc ?sel = Inl e
             \<and> response (cs_onMessage rt doc start evs (cmd_payload i (JStr ''waitFor'') (JObj kvs)))
                  = Some (error_reply i e))"
    unfolding r by (auto simp: not_rejected_def)
next
  assume a: "(if truthy (js_get (JObj kvs) ''selector'')
              then querySelector doc (js_get (JObj kvs) ''selector'') else Inr None) = Inr None
             \<and> list_all no_match pre"
    and late: "10000 < now - start"
  from a no_match_any_time[of pre created rt start]
  have "foldl (wait_step rt start (JNum 10000)) created pre = created
      \<or> foldl (wait_step rt start (JNum 10000)) created pre = timed_out"
    by simp
  from late_tick_times_out[OF this late, of rt]
  have "foldl (wait_step rt start (JNum 10000)) created (pre @ [PollTick (Inr False) now])
        = timed_out"
    by simp
  then show "cs_onMessage rt doc start (pre @ [PollTick (Inr False) now])
               (cmd_payload i (JStr ''waitFor'') (JObj kvs)) =
             \<lparr>response = Some (fail_reply i ''waitFor_timeout''), effects = [],
              waiting = Some timed_out\<rparr>"
    using waitFor_falsy_timeout_outcome[OF assms, of doc rt start _ i] a
    by (simp add: timed_out_def error_reply_def Error_def del: js_get.simps)
next
  assume a: "(if truthy (js_get (JObj kvs) ''selector'')
              then querySelector doc (js_get (JObj kvs) ''selector'') else Inr None) = Inr None
             \<and> list_all no_match pre"
    and b: "now - start \<le> 10000 \<and> list_all (in_time start) pre"
  from a b have q: "foldl (wait_step rt start (JNum 10000)) created pre = created"
    by (simp add: no_match_in_time)
  have "foldl (wait_step rt start (JNum 10000)) created (pre @ [PollTick (Inr False) now])
        = created"
    using b by (simp add: q) (simp add: created_def poll_callback_def js_gt_default)
  then show "cs_onMessage rt doc start (pre @ [PollTick (Inr False) now])
               (cmd_payload i (JStr ''waitFor'') (JObj kvs)) =
             \<lparr>response = None, effects = [], waiting = Some created\<rparr>"
    using waitFor_falsy_timeout_outcome[OF assms, of doc rt start _ i] a
    by (simp add: created_def del: js_get.simps)
  have "foldl (wait_step rt start (JNum 10000)) created (pre @ [PollTick (Inr True) now])
        = \<lparr>observer_connected = False, poll_active = False, settled = Some (Inr True)\<rparr>"
    using b by (simp add: q) (simp add: created_def poll_callback_def js_gt_default resolve_def)
  then show "cs_onMessage rt doc start (pre @ [PollTick (Inr True) now])
               (cmd_payload i (JStr ''waitFor'') (JObj kvs)) =
             \<lparr>response = Some (ok_reply i (JObj [(''waitedFor'', js_get (JObj kvs) ''selector'')])),
              effects = [],
              waiting = Some \<lparr>observer_connected = False, poll_active = False,
                              settled = Some (Inr True)\<rparr>\<rparr>"
    using waitFor_falsy_timeout_outcome[OF assms, of doc rt start _ i] a
    by (simp del: js_get.simps)
qed

lemma zero_timeout_example:
  "cs_onMessage rt0 blank_page 0 [Mutation (Inr False), PollTick (Inr False) 150]
      (cmd_payload (JStr ''w1'') (JStr ''waitFor'')
         (JObj [(''selector'', JStr ''#late''), (''timeoutMs'', JNum 0)]))
   = \<lparr>response = None, effects = [], waiting = Some created\<rparr>"
  "cs_onMessage rt0 blank_page 0 [Mutation (Inr False), PollTick (Inr False) 10000]
      (cmd_payload (JStr ''w1'') (JStr ''waitFor'')
         (JObj [(''selector'', JStr ''#late''), (''timeoutMs'', JNum 0)]))
   = \<lparr>response = None, effects = [], waiting = Some created\<rparr>"
  "cs_onMessage rt0 blank_page 0 [Mutation (Inr False), PollTick (Inr False) 10001]
      (cmd_payload (JStr ''w1'') (JStr ''waitFor'')
         (JObj [(''selector'', JStr ''#late''), (''timeoutMs'', JNum 0)]))
   = \<lparr>response = Some (fail_reply (JStr ''w1'') ''waitFor_timeout''), effects = [],
      waiting = Some timed_out\<rparr>"
  "cs_onMessage rt0 blank_page 0 [Mutation (Inr False), PollTick (Inr True) 150]
      (cmd_payload (JStr ''w1'') (JStr ''waitFor'')
         (JObj [(''selector'', JStr ''#late''), (''timeoutMs'', JNum 0)]))
   = \<lparr>response = Some (ok_reply (JStr ''w1'') (JObj [(''waitedFor'', JStr ''#late'')])),
      effects = [],
      waiting = Some \<lparr>observer_connected = False, poll_active = False,
                      settled = Some (Inr True)\<rparr>\<rparr>"
  by (simp_all add: waitFor_message dflt_def cmd_waitFor_def read_prop_def nullish_def js_or_def
      waitForSelector_def blank_page_def observer_callback_def poll_callback_def js_gt_def
      ToNumber_def Let_def created_def timed_out_def resolve_def reject_def error_reply_def
      Error_def)

theorem waitFor_falsy_timeout_is_default_witness:
  "cs_onMessage rt0 blank_page 0 [Mutation (Inr False), PollTick (Inr False) 150]
      (cmd_payload (JStr ''w1'') (JStr ''waitFor'')
         (JObj [(''selector'', JStr ''#late''), (''timeoutMs'', JNum 0)]))
   = \<lparr>response = None, effects = [], waiting = Some created\<rparr>
   \<and> cs_onMessage rt0 blank_page 0 [Mutation (Inr False), PollTick (Inr False) 10000]
      (cmd_payload (JStr ''w1'') (JStr ''waitFor'')
         (JObj [(''selector'', JStr ''#late''), (''timeoutMs'', JNum 0)]))
   = \<lparr>response = None, effects = [], waiting = Some created\<rparr>
   \<and> cs_onMessage rt0 blank_page 0 [Mutation (Inr False), PollTick (Inr False) 10001]
      (cmd_payload (JStr ''w1'') (JStr ''waitFor'')
         (JObj [(''selector'', JStr ''#late''), (''timeoutMs'', JNum 0)]))
   = \<lparr>response = Some (fail_reply (JStr ''w1'') ''waitFor_timeout''), effects = [],
      waiting = Some timed_out\<rparr>
   \<and> cs_onMessage rt0 blank_page 0 [Mutation (Inr False), PollTick (Inr True) 150]
      (cmd_payload (JStr ''w1'') (JStr ''waitFor'')
         (JObj [(''selector'', JStr ''#late''), (''timeoutMs'', JNum 0)]))
   = \<lparr>response = Some (ok_reply (JStr ''w1'') (JObj [(''waitedFor'', JStr ''#late'')])),
      effects = [],
      waiting = Some \<lparr>observer_connected = False, poll_active = False,
                      settled = Some (Inr True)\<rparr>\<rparr>
   \<and> \<not> truthy (js_get (JObj [(''selector'', JStr ''#late''), (''timeoutMs'', JNum 0)]) ''timeoutMs'')
   \<and> list_all no_match [Mutation (Inr False)]
   \<and> list_all (in_time 0) [Mutation (Inr False)]"
  using waitFor_falsy_timeout_is_default
          [of "[(''selector'', JStr ''#late''), (''timeoutMs'', JNum 0)]" rt0 blank_page 0
              "[Mutation (Inr False), PollTick (Inr False) 150]" "JStr ''w1''"
              "[Mutation (Inr False)]" 150]
        waitFor_falsy_timeout_is_default
          [of "[(''selector'', JStr ''#late''), (''timeoutMs'', JNum 0)]" rt0 blank_page 0
              "[Mutation (Inr False), PollTick (Inr False) 150]" "JStr ''w1''"
              "[Mutation (Inr False)]" 10001]
  by (simp add: zero_timeout_example no_match_def in_time_def)

subsection \<open>The limit of query\<close>

lemma floor_minus_one_rat: "\<lfloor>- 1 :: rat\<rfloor> = - 1"
  using floor_of_int[of "- 1", where ?'a = rat] by simp

lemma slice_limit_eq:
  "(if Number_isInteger limit then slice_limit out limit else out) = limit_results out limit"
proof (cases limit)
  case (JNum q)
  show ?thesis
  proof (cases "of_int \<lfloor>q\<rfloor> = q")
    case True
    then have "q < 0 \<longleftrightarrow> \<lfloor>q\<rfloor> < 0" by linarith
    with True JNum show ?thesis
      by (auto simp: limit_results_def slice0_def Let_def min_def max_def nat_diff_distrib'
          intro!: arg_cong2[where f = take])
  next
    case False
    with JNum show ?thesis by (simp add: limit_results_def)
  qed
qed (simp_all add: limit_results_def)

lemma limit_results_default:
  "limit_results out (dflt v JNull) = limit_results out v"
  by (cases v) (simp_all add: dflt_def limit_results_def)

text \<open>
  Claim C3, as the script has it. A \<open>query\<close> without a (truthy) selector fails with
  \<open>missing_selector\<close>. Otherwise the nodes are all the matches when \<open>all\<close> is truthy and
  at most the first match when it is not; each node gives its attribute or its
  trimmed text, in the order of the nodes; and the list is cut with
  \<open>slice(0, limit)\<close> if and only if \<open>limit\<close> is an integer: to its first \<open>limit\<close> results
  for a non-negative one, by dropping its last \<open>k\<close> results for a negative one \<open>-k\<close>. A
  null, missing or non-integer \<open>limit\<close> returns every result.
\<close>

theorem query_results:
  assumes "\<not> nullish args"
  shows "(\<not> truthy (js_get args ''selector'') \<longrightarrow>
            cmd_query doc args = Inl (Error ''missing_selector''))
       \<and> (truthy (js_get args ''selector'') \<longrightarrow>
            (if truthy (js_get args ''all'') then querySelectorAll doc (js_get args ''selector'')
             else first_match doc (js_get args ''selector'')) = Inr nodes \<longrightarrow>
            cmd_query doc args =
              Inr (JObj [(''results'',
                     JArr (limit_results
                             (map (extract_value (dflt (js_get args ''attr'') JNull)) nodes)
                             (js_get args ''limit'')))]))"
proof -
  have a: "truthy (dflt (js_get args ''all'') (JBool False)) = truthy (js_get args ''all'')"
    by (simp add: dflt_def)
  show ?thesis
    using assms
    by (auto simp: cmd_query_def Let_def slice_limit_eq limit_results_default a dollar_dollar_def
        split: sum.splits)
qed

theorem query_results_witness:
  "cmd_query list_page (JObj [(''selector'', JStr ''li''), (''all'', JBool True), (''limit'', JNum 2)])
     = Inr (JObj [(''results'', JArr [JStr ''a'', JStr ''b''])])
   \<and> cmd_query list_page (JObj [(''selector'', JStr ''li''), (''all'', JBool True)])
     = Inr (JObj [(''results'', JArr [JStr ''a'', JStr ''b'', JStr ''c'', JStr ''d'', JStr ''e''])])
   \<and> cmd_query list_page (JObj [(''all'', JBool True), (''limit'', JNum 2)])
     = Inl (Error ''missing_selector'')"
  using query_results
          [of "JObj [(''selector'', JStr ''li''), (''all'', JBool True), (''limit'', JNum 2)]"
              list_page five_items]
        query_results
          [of "JObj [(''selector'', JStr ''li''), (''all'', JBool True)]" list_page five_items]
        query_results [of "JObj [(''all'', JBool True), (''limit'', JNum 2)]" list_page five_items]
  by (simp add: nullish_def list_page_def five_items_def item_def limit_results_def dflt_def
      extract_value_def trim_def white_space_def leading_space_def)

text \<open>
  Claim C3 as the specification words it fails twice. With \<open>limit = -1\<close>, which is not
  a non-negative integer, the five results are not all returned: the last one is
  dropped. And \<open>limit = 2\<close> on a selector matching five elements returns one result,
  not two, unless \<open>all\<close> is set.
\<close>

theorem query_limit_counterexample:
  "cmd_query list_page
      (JObj [(''selector'', JStr ''li''), (''all'', JBool True), (''limit'', JNum (- 1))])
     = Inr (JObj [(''results'', JArr [JStr ''a'', JStr ''b'', JStr ''c'', JStr ''d''])])
   \<and> spec_limit [JStr ''a'', JStr ''b'', JStr ''c'', JStr ''d'', JStr ''e''] (JNum (- 1))
     = [JStr ''a'', JStr ''b'', JStr ''c'', JStr ''d'', JStr ''e'']
   \<and> cmd_query list_page (JObj [(''selector'', JStr ''li''), (''limit'', JNum 2)])
     = Inr (JObj [(''results'', JArr [JStr ''a''])])"
  by (simp add: cmd_query_def list_page_def five_items_def item_def dflt_def Let_def
      dollar_dollar_def dollar_def first_match_def extract_value_def trim_def white_space_def leading_space_def
      slice0_def nullish_def floor_minus_one_rat spec_limit_def)

subsection \<open>The failures of click\<close>

lemma click_message:
  "cs_onMessage rt doc start evs (cmd_payload i (JStr ''click'') args) =
   finish i (cmd_click doc (dflt args (JObj [])))"
  by (simp add: cs_onMessage_def cmd_payload_def opt_prop_def nullish_def run_command_def)

text \<open>
  For a \<open>click\<close> whose \<open>args\<close> is not null: when neither \<open>selector\<close> nor \<open>xy\<close> is given
  (each absent or falsy), the reply is the failure \<open>missing_selector_or_xy\<close> and
  nothing is done to the page; when a selector is given and matches no element, or
  when only \<open>xy\<close> is given and no element is at that point, the reply is the failure
  \<open>element_not_found\<close>, again with nothing done to the page.
\<close>

theorem click_failures:
  assumes "args \<noteq> JNull"
  shows "(\<not> truthy (js_get args ''selector'') \<and> \<not> truthy (js_get args ''xy'') \<longrightarrow>
            cs_onMessage rt doc start evs (cmd_payload i (JStr ''click'') args) =
              \<lparr>response = Some (fail_reply i ''missing_selector_or_xy''),
               effects = [], waiting = None\<rparr>)
       \<and> (truthy (js_get args ''selector'')
          \<and> querySelector doc (js_get args ''selector'') = Inr None \<longrightarrow>
            cs_onMessage rt doc start evs (cmd_payload i (JStr ''click'') args) =
              \<lparr>response = Some (fail_reply i ''element_not_found''),
               effects = [], waiting = None\<rparr>)
       \<and> (\<not> truthy (js_get args ''selector'') \<and> truthy (js_get args ''xy'')
          \<and> elementFromPoint doc (js_get (js_get args ''xy'') ''x'')
                (js_get (js_get args ''xy'') ''y'') = Inr None \<longrightarrow>
            cs_onMessage rt doc start evs (cmd_payload i (JStr ''click'') args) =
              \<lparr>response = Some (fail_reply i ''element_not_found''),
               effects = [], waiting = None\<rparr>)"
proof -
  have g: "js_get (dflt args (JObj [])) k = js_get args k" for k
    by (cases args) (simp_all add: dflt_def)
  have n: "\<not> nullish (dflt args (JObj []))"
    using assms by (cases args) (simp_all add: dflt_def nullish_def)
  show ?thesis
    unfolding click_message
    using n
    by (auto simp: cmd_click_def g Let_def finish_def error_reply_def Error_def dollar_def
        safeClick_def)
qed

theorem click_failures_witness:
  "cs_onMessage rt0 blank_page 0 [] (cmd_payload (JStr ''c0'') (JStr ''click'') (JObj []))
     = \<lparr>response = Some (fail_reply (JStr ''c0'') ''missing_selector_or_xy''),
        effects = [], waiting = None\<rparr>
   \<and> cs_onMessage rt0 blank_page 0 [] click_payload
     = \<lparr>response = Some (fail_reply (JStr ''c1'') ''element_not_found''),
        effects = [], waiting = None\<rparr>
   \<and> cs_onMessage rt0 blank_page 0 []
       (cmd_payload (JStr ''c2'') (JStr ''click'')
          (JObj [(''xy'', JObj [(''x'', JNum 10), (''y'', JNum 20)])]))
     = \<lparr>response = Some (fail_reply (JStr ''c2'') ''element_not_found''),
        effects = [], waiting = None\<rparr>"
  using click_failures [of "JObj []" rt0 blank_page 0 "[]" "JStr ''c0''"]
        click_failures [of "JObj [(''selector'', JStr ''#go'')]" rt0 blank_page 0 "[]" "JStr ''c1''"]
        click_failures
          [of "JObj [(''xy'', JObj [(''x'', JNum 10), (''y'', JNum 20)])]" rt0 blank_page 0 "[]"
              "JStr ''c2''"]
  by (simp add: click_payload_def blank_page_def)

text \<open>
  Claim C7. The claim does not hold of every click command. With \<open>args: null\<close> neither
  a selector nor coordinates are given, yet the reply is not
  \<open>missing_selector_or_xy\<close>: the default \<open>args = {}\<close> (background.js line 100,
  contentScript.js line 65) applies to undefined only, the destructuring of line 87
  throws, and the \<open>catch\<close> answers with the text of that TypeError. Nothing is done to
  the page. The router forwards the command and that reply as they are.
\<close>

theorem click_with_null_args:
  "cs_onMessage rt doc start evs (cmd_payload i (JStr ''click'') JNull) =
     \<lparr>response = Some (error_reply i (destructure_of_null ''selector'')),
      effects = [], waiting = None\<rparr>
   \<and> error_reply i (destructure_of_null ''selector'') \<noteq> fail_reply i ''missing_selector_or_xy''
   \<and> sent (handleControllerCommand rt0 browser0 null_click_msg connected) =
       [fail_reply (JStr ''c9'')
          (''Cannot destructure property '' @ [CHR 0x27] @ ''selector'' @ [CHR 0x27] @ '' of ''
             @ [CHR 0x27] @ ''args'' @ [CHR 0x27] @ '' as it is null.'')]"
proof (intro conjI)
  show c: "cs_onMessage rt doc start evs (cmd_payload i (JStr ''click'') JNull) =
     \<lparr>response = Some (error_reply i (destructure_of_null ''selector'')),
      effects = [], waiting = None\<rparr>" for rt doc start evs i
    by (simp add: click_message dflt_def cmd_click_def nullish_def finish_def)
  show "error_reply i (destructure_of_null ''selector'') \<noteq> fail_reply i ''missing_selector_or_xy''"
    by (simp add: error_reply_def fail_reply_def destructure_of_null_def)
  have "response (cs_onMessage rt0 blank_page 0 []
                    (cmd_payload (JStr ''c9'') (JStr ''click'') JNull))
        = Some (error_reply (JStr ''c9'') (destructure_of_null ''selector''))"
    by (simp add: c)
  then show "sent (handleControllerCommand rt0 browser0 null_click_msg connected) =
       [fail_reply (JStr ''c9'')
          (''Cannot destructure property '' @ [CHR 0x27] @ ''selector'' @ [CHR 0x27] @ '' of ''
             @ [CHR 0x27] @ ''args'' @ [CHR 0x27] @ '' as it is null.'')]"
    by (simp add: handleControllerCommand_def dispatch_def actionTypes_def null_click_msg_def
        dflt_def action_branch_def tracked_tab_def ensureContentScript_def browser0_def
        ping_probe_def api_def numeral_2_eq_2 wsSend_def connected_def ws_readyState_def
        socket_state_def error_reply_def fail_reply_def destructure_of_null_def
        cs_onMessage_def [of rt0 blank_page 0 "[]" "JObj [(''type'', JStr ''adapter:ping'')]"]
        opt_prop_def nullish_def)
qed

section \<open>Properties of the tab session manager\<close>

subsection \<open>The calls of a retried send\<close>

lemma calls_api: "calls (api c w) = calls w @ [c]"
  by (simp add: api_def)

lemma calls_ensureContentScript:
  "\<exists>cs. calls (ensureContentScript env t w) = calls w @ cs \<and>
        (cs = [SendMessage t ping_probe]
         \<or> cs = [SendMessage t ping_probe, ExecuteScript t, Delay 150])"
  by (auto simp: ensureContentScript_def inject_def calls_api split: sum.splits option.splits)

text \<open>With \<open>n\<close> attempts allowed, the payload is sent at most \<open>n\<close> times.\<close>

lemma calls_sendToContentWithRetry:
  "p \<noteq> ping_probe \<Longrightarrow>
   \<exists>cs. calls (snd (sendToContentWithRetry env t p n w)) = calls w @ cs \<and>
        count_list cs (SendMessage t p) \<le> n"
proof (induction n arbitrary: w)
  case 0
  then show ?case by simp
next
  case (Suc n)
  let ?w1 = "api (SendMessage t p) w"
  let ?w2 = "api (Delay 150) (ensureContentScript env t ?w1)"
  obtain cs1 where cs1: "calls (ensureContentScript env t ?w1) = calls ?w1 @ cs1"
    "cs1 = [SendMessage t ping_probe] \<or> cs1 = [SendMessage t ping_probe, ExecuteScript t, Delay 150]"
    using calls_ensureContentScript by blast
  from Suc.IH[OF Suc.prems, of ?w2] obtain cs2 where
    cs2: "calls (snd (sendToContentWithRetry env t p n ?w2)) = calls ?w2 @ cs2"
    "count_list cs2 (SendMessage t p) \<le> n" by blast
  have c1: "count_list cs1 (SendMessage t p) = 0"
    using cs1(2) Suc.prems by auto
  show ?case
  proof (cases "tabs_sendMessage env (length (calls w)) t p")
    case (Inr r)
    then show ?thesis by (simp add: calls_api)
  next
    case (Inl e)
    show ?thesis
    proof (cases "no_receiver e")
      case False
      with Inl show ?thesis by (simp add: calls_api)
    next
      case True
      have "calls (snd (sendToContentWithRetry env t p (Suc n) w)) =
            calls w @ ([SendMessage t p] @ cs1 @ [Delay 150] @ cs2)"
        using Inl True cs1(1) cs2(1) by (simp add: calls_api)
      moreover have "count_list ([SendMessage t p] @ cs1 @ [Delay 150] @ cs2) (SendMessage t p) \<le> Suc n"
        using c1 cs2(2) by simp
      ultimately show ?thesis by blast
    qed
  qed
qed

text \<open>
  Claim C6. \<open>sendToContentWithRetry(tabId, payload, 2)\<close> sends the payload once. A
  response is returned, and a failure that does not name a missing receiver is
  rethrown, at once: no readiness check, no second send. After a missing receiver it
  runs \<open>ensureContentScript\<close>, waits 150 ms and sends a second time, with the same two
  immediate outcomes; a second missing receiver is followed by one more
  \<open>ensureContentScript\<close> and the terminal error \<open>no_receiver_after_retry\<close>. The payload
  (when it is not the probe itself) is never sent more than twice.
\<close>

theorem sendToContentWithRetry_two_attempts:
  "sendToContentWithRetry env tabId payload 2 w =
     (let w1 = api (SendMessage tabId payload) w
      in case tabs_sendMessage env (length (calls w)) tabId payload of
           Inr resp \<Rightarrow> (Inr resp, w1)
         | Inl e \<Rightarrow>
             if \<not> no_receiver e then (Inl e, w1)
             else
               let w2 = api (Delay 150) (ensureContentScript env tabId w1);
                   w3 = api (SendMessage tabId payload) w2
               in case tabs_sendMessage env (length (calls w2)) tabId payload of
                    Inr resp \<Rightarrow> (Inr resp, w3)
                  | Inl e2 \<Rightarrow>
                      if \<not> no_receiver e2 then (Inl e2, w3)
                      else (Inl (Error ''no_receiver_after_retry''),
                            api (Delay 150) (ensureContentScript env tabId w3)))
   \<and> (payload \<noteq> ping_probe \<longrightarrow>
        count_list (new_calls w (snd (sendToContentWithRetry env tabId payload 2 w)))
          (SendMessage tabId payload) \<le> 2)"
proof (intro conjI impI)
  show "sendToContentWithRetry env tabId payload 2 w =
     (let w1 = api (SendMessage tabId payload) w
      in case tabs_sendMessage env (length (calls w)) tabId payload of
           Inr resp \<Rightarrow> (Inr resp, w1)
         | Inl e \<Rightarrow>
             if \<not> no_receiver e then (Inl e, w1)
             else
               let w2 = api (Delay 150) (ensureContentScript env tabId w1);
                   w3 = api (SendMessage tabId payload) w2
               in case tabs_sendMessage env (length (calls w2)) tabId payload of
                    Inr resp \<Rightarrow> (Inr resp, w3)
                  | Inl e2 \<Rightarrow>
                      if \<not> no_receiver e2 then (Inl e2, w3)
                      else (Inl (Error ''no_receiver_after_retry''),
                            api (Delay 150) (ensureContentScript env tabId w3)))"
    by (simp add: numeral_2_eq_2 Let_def split: sum.splits)
next
  assume "payload \<noteq> ping_probe"
  from calls_sendToContentWithRetry[OF this, of env tabId 2 w]
  show "count_list (new_calls w (snd (sendToContentWithRetry env tabId payload 2 w)))
          (SendMessage tabId payload) \<le> 2"
    by (auto simp: new_calls_def)
qed

lemma no_receiver_example: "no_receiver no_receiver_error"
  by (simp add: no_receiver_def no_receiver_error_def)

lemma pong_is_ok: "truthy pong \<and> truthy (js_get pong ''ok'')"
  by (simp add: pong_def)

theorem sendToContentWithRetry_two_attempts_witness:
  "sendToContentWithRetry flaky_browser 1 click_payload 2 connected =
     (Inr (fail_reply (JStr ''c1'') ''element_not_found''),
      connected\<lparr>calls := [SendMessage 1 click_payload, SendMessage 1 ping_probe, Delay 150,
                          SendMessage 1 click_payload]\<rparr>)
   \<and> fst (sendToContentWithRetry deaf_browser 1 click_payload 2 connected) =
       Inl (Error ''no_receiver_after_retry'')
   \<and> new_calls connected (snd (sendToContentWithRetry deaf_browser 1 click_payload 2 connected)) =
       [SendMessage 1 click_payload, SendMessage 1 ping_probe, ExecuteScript 1, Delay 150, Delay 150,
        SendMessage 1 click_payload, SendMessage 1 ping_probe, ExecuteScript 1, Delay 150, Delay 150]
   \<and> click_payload \<noteq> ping_probe"
  using sendToContentWithRetry_two_attempts [of flaky_browser 1 click_payload connected]
        sendToContentWithRetry_two_attempts [of deaf_browser 1 click_payload connected]
        no_receiver_example pong_is_ok
  by (simp add: flaky_browser_def deaf_browser_def browser0_def connected_def api_def
      ensureContentScript_def inject_def click_payload_def cmd_payload_def ping_probe_def
      new_calls_def Let_def)

section \<open>Properties of the command router\<close>

subsection \<open>What the handlers leave alone\<close>

lemma relay_api [simp]: "relay (api c w) = relay w"
  and frames_api [simp]: "frames (api c w) = frames w"
  by (simp_all add: relay_def frames_def api_def)

lemma relay_active [simp]: "relay (w\<lparr>activeTabId := a\<rparr>) = relay w"
  and frames_active [simp]: "frames (w\<lparr>activeTabId := a\<rparr>) = frames w"
  by (simp_all add: relay_def frames_def)

lemma relay_wsSend [simp]: "relay (wsSend obj w) = relay w"
  by (simp add: relay_def wsSend_def)

lemma relay_ensureContentScript [simp]: "relay (ensureContentScript env t w) = relay w"
  and frames_ensureContentScript [simp]: "frames (ensureContentScript env t w) = frames w"
  by (simp_all add: ensureContentScript_def inject_def split: sum.splits option.splits)

lemma relay_sendToContentWithRetry [simp]:
  "relay (snd (sendToContentWithRetry env t p n w)) = relay w"
  by (induction n arbitrary: w) (simp_all split: sum.splits)

lemma frames_sendToContentWithRetry [simp]:
  "frames (snd (sendToContentWithRetry env t p n w)) = frames w"
  by (induction n arbitrary: w) (simp_all split: sum.splits)

lemma relay_getOrCreateActiveTab [simp]: "relay (snd (getOrCreateActiveTab env w)) = relay w"
  and frames_getOrCreateActiveTab [simp]: "frames (snd (getOrCreateActiveTab env w)) = frames w"
  by (simp_all add: getOrCreateActiveTab_def Let_def split: sum.splits list.splits)

lemma relay_tracked_tab [simp]: "relay (snd (tracked_tab env w)) = relay w"
  and frames_tracked_tab [simp]: "frames (snd (tracked_tab env w)) = frames w"
  by (simp_all add: tracked_tab_def split: option.splits)

lemma relay_waitForTabComplete [simp]: "relay (snd (waitForTabComplete env t ms w)) = relay w"
  and frames_waitForTabComplete [simp]: "frames (snd (waitForTabComplete env t ms w)) = frames w"
  by (simp_all add: waitForTabComplete_def)

lemma snd_eqD: "f = (a, b) \<Longrightarrow> b = snd f"
  by simp

lemma relay_navigate [simp]: "relay (snd (navigate_branch env i args w)) = relay w"
  by (auto simp: navigate_branch_def Let_def
      split: prod.splits sum.splits option.splits dest!: snd_eqD)

lemma relay_action [simp]: "relay (snd (action_branch env i cmd args w)) = relay w"
  by (auto simp: action_branch_def Let_def
      split: prod.splits sum.splits option.splits dest!: snd_eqD)

lemma relay_switchTab [simp]: "relay (snd (switchTab_branch rt env i args w)) = relay w"
  by (auto simp: switchTab_branch_def Let_def
      split: prod.splits sum.splits option.splits dest!: snd_eqD)

lemma relay_screenshot [simp]: "relay (snd (screenshot_branch env i args w)) = relay w"
  by (auto simp: screenshot_branch_def Let_def
      split: prod.splits sum.splits option.splits dest!: snd_eqD)

lemma relay_openTab [simp]: "relay (snd (openTab_branch env i args w)) = relay w"
  by (auto simp: openTab_branch_def Let_def
      split: prod.splits sum.splits option.splits dest!: snd_eqD)

lemma relay_dispatch [simp]: "relay (snd (dispatch rt env i cmd args w)) = relay w"
  by (simp add: dispatch_def)

lemma relay_handleControllerCommand [simp]:
  "relay (handleControllerCommand rt env msg w) = relay w"
  by (auto simp: handleControllerCommand_def split: prod.splits option.splits dest!: snd_eqD)

lemma relay_ws_onmessage [simp]: "relay (ws_onmessage rt env d w) = relay w"
  by (simp add: ws_onmessage_def split: option.splits)

lemma relay_runtime_onMessage [simp]: "relay (runtime_onMessage m w) = relay w"
  by (simp add: runtime_onMessage_def)

lemma ws_readyState_relay: "ws_readyState w = rs_of (relay w)"
  by (simp add: ws_readyState_def socket_state_def relay_def rs_of_def split: option.splits)

lemma frames_wsSend:
  "frames (wsSend obj w) =
     (if rs_of (relay w) = Some OPEN then (fst (frames w) @ [obj], snd (frames w))
      else (fst (frames w), snd (frames w) @ [obj]))"
  by (simp add: wsSend_def frames_def ws_readyState_relay)

lemma sent_frames: "sent w = fst (frames w)"
  and warned_frames: "warned w = snd (frames w)"
  by (simp_all add: frames_def)

lemma id_ok_reply [simp]: "js_get (ok_reply i d) ''id'' = i"
  and id_fail_reply [simp]: "js_get (fail_reply i e) ''id'' = i"
  and id_error_reply [simp]: "js_get (error_reply i x) ''id'' = i"
  by (simp_all add: ok_reply_def fail_reply_def error_reply_def)

subsection \<open>One branch, one frame\<close>

lemma answers_navigate:
  "rs_of (relay w) = Some OPEN \<Longrightarrow> answers i w (navigate_branch env i args w)"
  by (auto simp: answers_def navigate_branch_def Let_def frames_wsSend
      split: prod.splits sum.splits option.splits dest!: snd_eqD)

lemma answers_switchTab:
  "rs_of (relay w) = Some OPEN \<Longrightarrow> answers i w (switchTab_branch rt env i args w)"
  by (auto simp: answers_def switchTab_branch_def Let_def frames_wsSend
      split: prod.splits sum.splits option.splits dest!: snd_eqD)

lemma answers_screenshot:
  "rs_of (relay w) = Some OPEN \<Longrightarrow> answers i w (screenshot_branch env i args w)"
  by (auto simp: answers_def screenshot_branch_def Let_def frames_wsSend
      split: prod.splits sum.splits option.splits dest!: snd_eqD)

lemma answers_openTab:
  "rs_of (relay w) = Some OPEN \<Longrightarrow> answers i w (openTab_branch env i args w)"
  by (auto simp: answers_def openTab_branch_def Let_def frames_wsSend
      split: prod.splits sum.splits option.splits dest!: snd_eqD)

lemma answers_dispatch:
  "rs_of (relay w) = Some OPEN \<Longrightarrow> cmd \<notin> set actionTypes \<Longrightarrow>
   answers i w (dispatch rt env i cmd args w)"
  by (simp add: dispatch_def answers_navigate answers_switchTab answers_screenshot answers_openTab)
     (simp add: answers_def frames_wsSend)

lemma retry_response:
  "sendToContentWithRetry env t p n w = (Inr resp, w') \<Longrightarrow>
   \<exists>k. tabs_sendMessage env k t p = Inr resp"
  by (induction n arbitrary: w) (auto split: sum.splits if_splits)

text \<open>The branch of the action commands: at most one frame, and which.\<close>

lemma action_frames:
  assumes "rs_of (relay w) = Some OPEN"
  shows "(\<exists>w'. action_branch env i cmd args w = (None, w') \<and>
           ((frames w' = frames w
               \<and> (\<exists>k t. tabs_sendMessage env k t (cmd_payload i cmd args) = Inr JUndefined))
          \<or> (\<exists>x. frames w' = (fst (frames w) @ [x], snd (frames w)) \<and>
                  ((\<exists>e. x = error_reply i e)
                   \<or> (\<exists>k t. tabs_sendMessage env k t (cmd_payload i cmd args) = Inr x)))))
       \<or> (\<exists>e w'. action_branch env i cmd args w = (Some e, w') \<and> frames w' = frames w)"
proof (cases "tracked_tab env w")
  case (Pair r w1)
  have f1: "frames w1 = frames w" "relay w1 = relay w"
    using Pair frames_tracked_tab[of env w] relay_tracked_tab[of env w] by simp_all
  show ?thesis
  proof (cases r)
    case (Inl e)
    with Pair f1 show ?thesis by (simp add: action_branch_def)
  next
    case (Inr tabId)
    obtain r2 w2 where s: "sendToContentWithRetry env tabId (cmd_payload i cmd args) 2
        (ensureContentScript env tabId w1) = (r2, w2)" by force
    have f2: "frames w2 = frames w" "relay w2 = relay w"
      using s f1
        frames_sendToContentWithRetry
          [of env tabId "cmd_payload i cmd args" 2 "ensureContentScript env tabId w1"]
        relay_sendToContentWithRetry
          [of env tabId "cmd_payload i cmd args" 2 "ensureContentScript env tabId w1"]
      by simp_all
    show ?thesis
    proof (cases r2)
      case (Inl e)
      with Pair Inr s f2 assms show ?thesis
        by (auto simp: action_branch_def frames_wsSend)
    next
      case resp: (Inr resp)
      with s retry_response obtain k where
        k: "tabs_sendMessage env k tabId (cmd_payload i cmd args) = Inr resp"
        by blast
      with Pair Inr s f2 assms resp show ?thesis
        by (auto simp: action_branch_def frames_wsSend)
    qed
  qed
qed

text \<open>The content script of this repository answers a command message with the id of
  that message, whenever it answers.\<close>

lemma content_script_reply_id:
  "response (cs_onMessage rt doc start evs (cmd_payload i cmd args)) = Some r \<Longrightarrow>
   js_get r ''id'' = i"
  by (auto simp: cs_onMessage_def cmd_payload_def opt_prop_def nullish_def run_command_def
      cmd_waitFor_def Let_def finish_def
      split: if_splits sum.splits option.splits prod.splits)

subsection \<open>One command, one reply\<close>

text \<open>
  What the router sends for one command while the socket is open (every call to the
  browser is taken to settle; the handler runs to its end before the next event). For
  a command that is not in \<open>actionTypes\<close>: exactly one frame, with the id of the
  command; when an exception leaves the branch, that frame is
  \<open>{ id, ok: false, error: String(e?.message || e) }\<close>. For a command in \<open>actionTypes\<close>:
  the failure of the round trip, as \<open>{ id, ok: false, error }\<close> with the id of the
  command, or the response of the tab as it came, or nothing when that response is
  undefined (line 117). Nothing is left unsent with a warning.
\<close>

theorem one_reply_per_command:
  assumes "ws_readyState w = Some OPEN"
  shows "(js_get msg ''cmd'' \<notin> set actionTypes \<longrightarrow>
            (\<exists>r. sent (handleControllerCommand rt env msg w) = sent w @ [r]
                 \<and> js_get r ''id'' = js_get msg ''id''
                 \<and> (\<forall>e w1. dispatch rt env (js_get msg ''id'') (js_get msg ''cmd'')
                              (dflt (js_get msg ''args'') (JObj [])) w = (Some e, w1)
                            \<longrightarrow> r = error_reply (js_get msg ''id'') e)))
       \<and> (js_get msg ''cmd'' \<in> set actionTypes \<longrightarrow>
            (sent (handleControllerCommand rt env msg w) = sent w
               \<and> (\<exists>k t. tabs_sendMessage env k t
                     (cmd_payload (js_get msg ''id'') (js_get msg ''cmd'')
                        (dflt (js_get msg ''args'') (JObj []))) = Inr JUndefined))
          \<or> (\<exists>r. sent (handleControllerCommand rt env msg w) = sent w @ [r]
                 \<and> ((\<exists>e. r = error_reply (js_get msg ''id'') e)
                    \<or> (\<exists>k t. tabs_sendMessage env k t
                          (cmd_payload (js_get msg ''id'') (js_get msg ''cmd'')
                             (dflt (js_get msg ''args'') (JObj []))) = Inr r))))
       \<and> warned (handleControllerCommand rt env msg w) = warned w"
proof -
  let ?i = "js_get msg ''id''" and ?cmd = "js_get msg ''cmd''"
  let ?args = "dflt (js_get msg ''args'') (JObj [])"
  have op: "rs_of (relay w) = Some OPEN"
    using assms by (simp add: ws_readyState_relay)
  show ?thesis
  proof (cases "?cmd \<in> set actionTypes")
    case False
    obtain r w1 where d: "dispatch rt env ?i ?cmd ?args w = (r, w1)" by force
    have a: "answers ?i w (r, w1)"
      using answers_dispatch[OF op False, of ?i rt env ?args] d by simp
    have rl: "relay w1 = relay w"
      using relay_dispatch[of rt env ?i ?cmd ?args w] d by simp
    show ?thesis
    proof (cases r)
      case None
      with a d False show ?thesis
        by (auto simp: answers_def handleControllerCommand_def sent_frames warned_frames)
    next
      case (Some e)
      with a d False rl op show ?thesis
        by (auto simp: answers_def handleControllerCommand_def sent_frames warned_frames
            frames_wsSend)
    qed
  next
    case True
    then have d: "dispatch rt env ?i ?cmd ?args w = action_branch env ?i ?cmd ?args w"
      by (auto simp: dispatch_def actionTypes_def)
    from action_frames[OF op, of env ?i ?cmd ?args]
    consider
      (silent) w' where "action_branch env ?i ?cmd ?args w = (None, w')" "frames w' = frames w"
        "\<exists>k t. tabs_sendMessage env k t (cmd_payload ?i ?cmd ?args) = Inr JUndefined"
    | (one) w' x where "action_branch env ?i ?cmd ?args w = (None, w')"
        "frames w' = (fst (frames w) @ [x], snd (frames w))"
        "(\<exists>e. x = error_reply ?i e)
         \<or> (\<exists>k t. tabs_sendMessage env k t (cmd_payload ?i ?cmd ?args) = Inr x)"
    | (thrown) e w' where "action_branch env ?i ?cmd ?args w = (Some e, w')"
        "frames w' = frames w"
      by blast
    then show ?thesis
    proof cases
      case silent
      with d True show ?thesis
        by (simp add: handleControllerCommand_def sent_frames warned_frames)
    next
      case one
      with d True show ?thesis
        by (auto simp: handleControllerCommand_def sent_frames warned_frames)
    next
      case thrown
      have "relay w' = relay w"
        using relay_action[of env ?i ?cmd ?args w] thrown(1) by simp
      with thrown d True op show ?thesis
        by (auto simp: handleControllerCommand_def sent_frames warned_frames frames_wsSend)
    qed
  qed
qed

lemma connected_is_open: "ws_readyState connected = Some OPEN"
  by (simp add: connected_def ws_readyState_def socket_state_def)

lemma ping_on_browser0:
  "handleControllerCommand rt0 browser0 ping_msg connected =
     connected\<lparr>sent := [ok_reply (JStr ''k1'') (JStr ''pong'')]\<rparr>"
  by (simp add: handleControllerCommand_def dispatch_def actionTypes_def ping_msg_def dflt_def
      wsSend_def connected_def ws_readyState_def socket_state_def)

lemma click_on_browser0:
  "handleControllerCommand rt0 browser0 click_msg connected =
     connected\<lparr>sent := [fail_reply (JStr ''c1'') ''element_not_found''],
               calls := [SendMessage 1 ping_probe, SendMessage 1 click_payload]\<rparr>"
  by (simp add: handleControllerCommand_def dispatch_def actionTypes_def click_msg_def dflt_def
      action_branch_def tracked_tab_def ensureContentScript_def browser0_def cs_onMessage_def
      ping_probe_def opt_prop_def nullish_def api_def numeral_2_eq_2 cmd_payload_def
      click_payload_def run_command_def finish_def cmd_click_def dollar_def safeClick_def
      blank_page_def error_reply_def fail_reply_def Error_def Let_def wsSend_def connected_def
      ws_readyState_def socket_state_def)

theorem one_reply_per_command_witness:
  "sent (handleControllerCommand rt0 browser0 ping_msg connected)
     = [ok_reply (JStr ''k1'') (JStr ''pong'')]
   \<and> sent (handleControllerCommand rt0 browser0 click_msg connected)
     = [fail_reply (JStr ''c1'') ''element_not_found'']
   \<and> warned (handleControllerCommand rt0 browser0 click_msg connected) = []
   \<and> js_get ping_msg ''cmd'' \<notin> set actionTypes
   \<and> js_get click_msg ''cmd'' \<in> set actionTypes
   \<and> ws_readyState connected = Some OPEN"
  using one_reply_per_command [OF connected_is_open, of ping_msg rt0 browser0]
        one_reply_per_command [OF connected_is_open, of click_msg rt0 browser0]
  by (simp add: ping_on_browser0 click_on_browser0 connected_is_open)
     (simp add: connected_def ping_msg_def click_msg_def actionTypes_def)

subsection \<open>The round trip through the content script\<close>

lemma content_script_reply_defined:
  "response (cs_onMessage rt doc start evs msg) = Some r \<Longrightarrow> r \<noteq> JUndefined"
  by (auto simp: cs_onMessage_def run_command_def cmd_waitFor_def finish_def Let_def ok_reply_def
      fail_reply_def error_reply_def
      split: if_splits sum.splits option.splits prod.splits)

text \<open>Every command but \<open>waitFor\<close> is answered by the content script, whatever the page.\<close>

lemma content_script_answers:
  "cmd \<noteq> JStr ''waitFor'' \<Longrightarrow>
   response (cs_onMessage rt doc start evs (cmd_payload i cmd args)) \<noteq> None"
  by (auto simp: cs_onMessage_def cmd_payload_def opt_prop_def nullish_def run_command_def
      finish_def split: sum.splits prod.splits)

text \<open>
  With the content script of this repository in the tab (every response of the tab to
  the command is one the listener gave to \<open>sendResponse\<close>), a command of \<open>actionTypes\<close>
  gets exactly one frame, with its id, once the round trip has settled.
\<close>

lemma one_reply_with_content_script:
  assumes "ws_readyState w = Some OPEN"
    and "js_get msg ''cmd'' \<in> set actionTypes"
    and tab: "\<And>k t r.
           tabs_sendMessage env k t
             (cmd_payload (js_get msg ''id'') (js_get msg ''cmd'')
                (dflt (js_get msg ''args'') (JObj []))) = Inr r \<Longrightarrow>
           \<exists>rt' doc start evs.
             response (cs_onMessage rt' doc start evs
               (cmd_payload (js_get msg ''id'') (js_get msg ''cmd'')
                  (dflt (js_get msg ''args'') (JObj [])))) = Some r"
  shows "\<exists>r. sent (handleControllerCommand rt env msg w) = sent w @ [r]
            \<and> js_get r ''id'' = js_get msg ''id''"
proof -
  let ?p = "cmd_payload (js_get msg ''id'') (js_get msg ''cmd'') (dflt (js_get msg ''args'') (JObj []))"
  from one_reply_per_command[OF assms(1), of msg rt env] assms(2)
  consider
    (silent) k t where "tabs_sendMessage env k t ?p = Inr JUndefined"
  | (one) r where "sent (handleControllerCommand rt env msg w) = sent w @ [r]"
      "(\<exists>e. r = error_reply (js_get msg ''id'') e) \<or> (\<exists>k t. tabs_sendMessage env k t ?p = Inr r)"
    by blast
  then show ?thesis
  proof cases
    case silent
    from tab[OF this] content_script_reply_defined show ?thesis by blast
  next
    case one
    from one(2) have "js_get r ''id'' = js_get msg ''id''"
    proof
      assume "\<exists>e. r = error_reply (js_get msg ''id'') e"
      then show ?thesis by auto
    next
      assume "\<exists>k t. tabs_sendMessage env k t ?p = Inr r"
      with tab content_script_reply_id show ?thesis by blast
    qed
    with one(1) show ?thesis by blast
  qed
qed

text \<open>
  Claim C2. The claim does not hold of every command. A \<open>waitFor\<close> with the empty
  selector skips the immediate check of line 7 (the empty string is falsy), and from
  then on every \<open>document.querySelector("")\<close> throws: in the observer's callback at
  line 11 and in the interval's at line 19, before the timeout test of line 24. These
  exceptions are raised in callbacks, outside the \<open>try\<close> of line 68; nothing catches
  them, the promise is never settled, \<open>sendResponse\<close> is never called, and the router's
  \<open>await\<close> of line 115 does not return: no Result Envelope is produced for the
  command, however late the clock. Both resources stay as well.
\<close>

theorem waitFor_empty_selector_never_replies:
  assumes "list_all lookup_throws evs"
  shows "cs_onMessage rt doc start evs
           (cmd_payload i (JStr ''waitFor'') (JObj ((''selector'', JStr []) # kvs)))
         = \<lparr>response = None, effects = [], waiting = Some created\<rparr>"
proof -
  have "waitForSelector rt doc start evs (JStr []) t = created" for t
    using throwing_lookup_never_settles[OF assms]
    by (simp add: waitForSelector_def created_def)
  moreover have "settled created = None"
    by (simp add: created_def)
  ultimately show ?thesis
    by (simp add: waitFor_message dflt_def cmd_waitFor_def read_prop_def nullish_def Let_def)
qed

theorem waitFor_empty_selector_never_replies_witness:
  "querySelector strict_page (JStr []) = Inl empty_selector_error
   \<and> list_all lookup_throws
       [Mutation (Inl empty_selector_error), PollTick (Inl empty_selector_error) 150,
        PollTick (Inl empty_selector_error) 60000]
   \<and> cs_onMessage rt0 strict_page 0
       [Mutation (Inl empty_selector_error), PollTick (Inl empty_selector_error) 150,
        PollTick (Inl empty_selector_error) 60000]
       (cmd_payload (JStr ''w0'') (JStr ''waitFor'') (JObj [(''selector'', JStr [])]))
     = \<lparr>response = None, effects = [], waiting = Some created\<rparr>"
  using waitFor_empty_selector_never_replies
          [of "[Mutation (Inl empty_selector_error), PollTick (Inl empty_selector_error) 150,
                PollTick (Inl empty_selector_error) 60000]" rt0 strict_page 0 "JStr ''w0''" "[]"]
  by (simp add: lookup_throws_def strict_page_def blank_page_def)

subsection \<open>switchTab\<close>

text \<open>What the branch of lines 121-133 would do with the example: the index 7 is out of
  range, the title matches the second tab, which is activated and becomes the tracked
  tab.\<close>

lemma switchTab_branch_example:
  "find_target rt0 [docs_tab, gmail_tab] (JNum 7) (JStr ''Gmail'') JUndefined = Some gmail_tab
   \<and> switchTab_branch rt0 browser0 (JStr ''s1'')
        (JObj [(''index'', JNum 7), (''title'', JStr ''Gmail'')]) connected
     = (None,
        connected\<lparr>activeTabId := Some 2,
                  sent := [ok_reply (JStr ''s1'')
                             (JObj [(''tabId'', JNum 2), (''title'', JStr ''Inbox - Gmail''),
                                    (''url'', JStr ''https://mail.google.com/'')])],
                  calls := [TabsQuery all_tabs_query, TabsUpdate 2 make_active]\<rparr>)"
  by (simp add: find_target_def docs_tab_def gmail_tab_def ToString_def switchTab_branch_def
      nullish_def browser0_def all_tabs_query_def active_query_def api_def Let_def wsSend_def
      connected_def ws_readyState_def socket_state_def tab_num_def opt_str_def)

text \<open>
  Claim C1. The claim does not hold of the router. \<open>switchTab\<close> is listed in
  \<open>actionTypes\<close> (line 8), whose test (line 111) comes before the \<open>switchTab\<close> branch
  (line 121): every \<open>switchTab\<close> command is forwarded to the content script, and the
  branch that searches and activates a tab is never reached. With the content script
  of this repository, which has no \<open>switchTab\<close>, the reply is \<open>unknown_command\<close>; the tabs
  are not queried, no tab is activated and the tracked tab stays as it was.
\<close>

theorem switchTab_is_forwarded:
  "dispatch rt env i (JStr ''switchTab'') args w = action_branch env i (JStr ''switchTab'') args w
   \<and> handleControllerCommand rt0 browser0 switch_msg connected =
       connected\<lparr>sent := [fail_reply (JStr ''s1'') ''unknown_command''],
                 calls := [SendMessage 1 ping_probe,
                           SendMessage 1
                             (cmd_payload (JStr ''s1'') (JStr ''switchTab'')
                                (JObj [(''index'', JNum 7), (''title'', JStr ''Gmail'')]))]\<rparr>"
  by (simp add: handleControllerCommand_def switch_msg_def dispatch_def actionTypes_def
      action_branch_def tracked_tab_def connected_def ensureContentScript_def browser0_def
      cs_onMessage_def ping_probe_def opt_prop_def nullish_def api_def numeral_2_eq_2
      cmd_payload_def dflt_def run_command_def wsSend_def ws_readyState_def socket_state_def
      fail_reply_def)

subsection \<open>screenshot\<close>

text \<open>With a tab tracked, the branch makes one call, the capture of the visible tab of
  the current window; the tracked tab is not part of it.\<close>

lemma screenshot_branch_tracked:
  "screenshot_branch env i args (w\<lparr>activeTabId := Some a\<rparr>) =
     (None,
      wsSend (case tabs_captureVisibleTab env (length (calls w)) JUndefined
                     (JObj [(''format'', dflt (js_get (js_or args (JObj [])) ''format'')
                                            (JStr ''png''))]) of
                Inl e \<Rightarrow> error_reply i e
              | Inr dataUrl \<Rightarrow> ok_reply i (JObj [(''dataUrl'', JStr dataUrl)]))
        (api (CaptureVisibleTab JUndefined
                (JObj [(''format'', dflt (js_get (js_or args (JObj [])) ''format'')
                                       (JStr ''png''))]))
           (w\<lparr>activeTabId := Some a\<rparr>)))"
  by (simp add: screenshot_branch_def tracked_tab_def Let_def split: sum.splits)

text \<open>
  Claim C4. The reply has the shape the claim gives, but the image is not that of the
  tracked tab. The branch reads \<open>activeTabId\<close> into \<open>tabId\<close> (line 136) and never uses
  it: \<open>captureVisibleTab(undefined, ...)\<close> captures whatever tab is visible in the
  current window. After \<open>openTab\<close> with \<open>active: false\<close> the tracked tab is the new
  background tab 3, and the screenshot that follows is the one of the visible tab 1.
  Two worlds that differ in the tracked tab only get the same frame and the same
  call.
\<close>

theorem screenshot_ignores_tracked_tab:
  "activeTabId (handleControllerCommand rt0 browser0 open_msg connected) = Some 3
   \<and> sent (handleControllerCommand rt0 browser0 shot_msg
             (handleControllerCommand rt0 browser0 open_msg connected))
     = [ok_reply (JStr ''o1'') (JObj [(''tabId'', JNum 3), (''url'', JStr [])]),
        ok_reply (JStr ''p1'') (JObj [(''dataUrl'', JStr ''data:image/png;base64,DOCS'')])]
   \<and> calls (handleControllerCommand rt0 browser0 shot_msg
              (handleControllerCommand rt0 browser0 open_msg connected))
     = [TabsCreate (JObj [(''url'', JStr ''https://b.example/''), (''active'', JBool False)]),
        CaptureVisibleTab JUndefined (JObj [(''format'', JStr ''png'')])]
   \<and> snd (screenshot_branch env i args (w\<lparr>activeTabId := Some a\<rparr>))
     = (snd (screenshot_branch env i args (w\<lparr>activeTabId := Some b\<rparr>)))\<lparr>activeTabId := Some a\<rparr>"
proof -
  have "snd (screenshot_branch env i args (w\<lparr>activeTabId := Some a\<rparr>))
     = (snd (screenshot_branch env i args (w\<lparr>activeTabId := Some b\<rparr>)))\<lparr>activeTabId := Some a\<rparr>"
    by (simp add: screenshot_branch_tracked wsSend_def api_def ws_readyState_def socket_state_def
        split: option.splits)
  then show ?thesis
    by (simp add: handleControllerCommand_def open_msg_def shot_msg_def dispatch_def
        actionTypes_def openTab_branch_def screenshot_branch_def tracked_tab_def tab_num_def
        opt_str_def js_or_def dflt_def Let_def browser0_def api_def wsSend_def connected_def
        ws_readyState_def socket_state_def)
qed

section \<open>Properties of the connection life cycle\<close>

subsection \<open>Invariants of the event loop\<close>

lemma relay_ok_cong: "relay w' = relay w \<Longrightarrow> relay_ok w' = relay_ok w"
  by (simp add: relay_def relay_ok_def current_only_def fixed_delay_def)

lemma relay_ok_connectWS: "relay_ok w \<Longrightarrow> relay_ok (connectWS w)"
  by (auto simp: relay_ok_def current_only_def fixed_delay_def connectWS_def ws_readyState_def
      socket_state_def nth_append split: option.splits if_splits)

lemma relay_ok_clearTimeout: "relay_ok w \<Longrightarrow> relay_ok (clearTimeout h w)"
  by (auto simp: relay_ok_def current_only_def fixed_delay_def clearTimeout_def)

lemma relay_ok_onclose: "relay_ok w \<Longrightarrow> relay_ok (ws_onclose w)"
  by (auto simp: relay_ok_def current_only_def fixed_delay_def ws_onclose_def clearTimeout_def
      setTimeout_connectWS_def split: option.splits)

lemma nth_list_update_in: "j < length xs \<Longrightarrow> xs[i := x] ! j = (if i = j then x else xs ! j)"
  by (cases "i = j") simp_all

lemma relay_ok_close: "relay_ok w \<Longrightarrow> relay_ok (ws_close w)"
  by (auto simp: relay_ok_def current_only_def fixed_delay_def ws_close_def nth_list_update_in
      split: option.splits if_splits)

lemma relay_ok_set_closed: "relay_ok w \<Longrightarrow> relay_ok (set_socket i CLOSED w)"
  by (auto simp: relay_ok_def current_only_def fixed_delay_def set_socket_def nth_list_update_in
      split: if_splits)

lemma relay_ok_set_open:
  assumes "relay_ok w" "socket_state w i = Some CONNECTING"
  shows "relay_ok (set_socket i OPEN w)"
proof -
  from assms(2) have i: "i < length (sockets w)" "sockets w ! i = CONNECTING"
    by (simp_all add: socket_state_def split: if_splits)
  with assms(1) have cur: "ws w = Some i"
    by (simp add: relay_ok_def current_only_def)
  have "ws w = Some j" if "j < length (sockets w)"
    "(sockets w)[i := OPEN] ! j = CONNECTING \<or> (sockets w)[i := OPEN] ! j = OPEN" for j
  proof (cases "i = j")
    case True
    with cur show ?thesis by simp
  next
    case False
    with that assms(1) show ?thesis
      by (auto simp: relay_ok_def current_only_def)
  qed
  with assms(1) show ?thesis
    by (simp add: relay_ok_def current_only_def fixed_delay_def set_socket_def)
qed

lemma relay_ok_step: "relay_ok w \<Longrightarrow> relay_ok (step rt env w ev)"
proof (cases ev)
  case (SocketOpen i)
  then show "relay_ok w \<Longrightarrow> ?thesis"
    using relay_ok_cong[of "ws_onopen (set_socket i OPEN w)" "set_socket i OPEN w"]
    by (simp add: relay_ok_set_open ws_onopen_def)
next
  case (SocketMessage i d)
  then show "relay_ok w \<Longrightarrow> ?thesis"
    using relay_ok_cong[of "ws_onmessage rt env d w" w] by simp
next
  case (SocketClose i)
  then show "relay_ok w \<Longrightarrow> ?thesis"
    by (simp add: relay_ok_onclose relay_ok_set_closed)
next
  case (SocketError i)
  then show "relay_ok w \<Longrightarrow> ?thesis"
    by (simp add: ws_onerror_def relay_ok_close)
next
  case (TimerFired h)
  then show "relay_ok w \<Longrightarrow> ?thesis"
    by (simp add: relay_ok_connectWS relay_ok_clearTimeout)
next
  case Wake
  then show "relay_ok w \<Longrightarrow> ?thesis"
    by (simp add: relay_ok_connectWS)
next
  case (TabActivated t)
  then show "relay_ok w \<Longrightarrow> ?thesis"
    using relay_ok_cong[of "w\<lparr>activeTabId := Some t\<rparr>" w]
    by (simp add: relay_ok_connectWS)
next
  case (RuntimeMessage m)
  then show "relay_ok w \<Longrightarrow> ?thesis"
    using relay_ok_cong[of "runtime_onMessage m w" w] by simp
qed

lemma relay_ok_foldl: "relay_ok w \<Longrightarrow> relay_ok (foldl (step rt env) w evs)"
  by (induction evs arbitrary: w) (simp_all add: relay_ok_step)

lemma relay_ok_run: "relay_ok (run rt env evs)"
  unfolding run_def
  by (rule relay_ok_foldl)
     (simp add: relay_ok_def current_only_def fixed_delay_def connectWS_def initial_world_def
        ws_readyState_def)

lemma run_snoc: "run rt env (evs @ [ev]) = step rt env (run rt env evs) ev"
  by (simp add: run_def)

lemma open_is_current:
  "relay_ok w \<Longrightarrow> socket_state w i = Some CONNECTING \<or> socket_state w i = Some OPEN \<Longrightarrow>
   ws w = Some i"
  by (auto simp: relay_ok_def current_only_def socket_state_def split: if_splits)

subsection \<open>The four steps of a reconnection\<close>

lemma onopen_sends:
  assumes "relay_ok w" "socket_state w i = Some CONNECTING"
  shows "sent (step rt env w (SocketOpen i)) = sent w @ [hello_frame, boot_ping]"
proof -
  have "ws w = Some i" using open_is_current assms by blast
  moreover have "i < length (sockets w)"
    using assms(2) by (simp add: socket_state_def split: if_splits)
  ultimately show ?thesis
    using assms(2)
    by (simp add: ws_onopen_def wsSend_def ws_readyState_def socket_state_def set_socket_def)
qed

lemma onclose_schedules:
  assumes "socket_state w i \<noteq> None" "socket_state w i \<noteq> Some CLOSED" "relay_ok w"
  shows "reconnectTimer (step rt env w (SocketClose i)) = Some (next_timer w)
       \<and> (next_timer w, 1500) \<in> set (timers (step rt env w (SocketClose i)))
       \<and> list_all (\<lambda>(h, d). d = 1500) (timers (step rt env w (SocketClose i)))"
  using assms
  by (auto simp: ws_onclose_def set_socket_def setTimeout_connectWS_def clearTimeout_def
      RETRY_MS_def relay_ok_def fixed_delay_def list_all_iff split: option.splits)

lemma timer_reconnects:
  assumes "h \<in> fst ` set (timers w)"
  shows "ws_readyState (step rt env w (TimerFired h)) = Some CONNECTING
       \<or> ws_readyState (step rt env w (TimerFired h)) = Some OPEN"
  using assms
  by (auto simp: connectWS_def clearTimeout_def ws_readyState_def socket_state_def nth_append)

lemma onerror_closes:
  assumes "relay_ok w" "socket_state w i = Some OPEN"
  shows "step rt env w (SocketError i) = set_socket i CLOSING w"
proof -
  have "ws w = Some i" using open_is_current assms by blast
  then show ?thesis using assms(2)
    by (simp add: ws_onerror_def ws_close_def set_socket_def)
qed

text \<open>
  Claim C8. At any point of the worker's life (after any sequence of events): the
  close of a socket that was not closed yet schedules a reconnect timeout with the
  delay 1500 ms, which becomes \<open>reconnectTimer\<close>, and every timeout then pending has
  that same delay, however many closes came before; an error on the open socket only
  starts its closing, so that the close event that follows takes this same path; a
  pending timeout that fires leaves the client connecting (or already open); and a
  connecting socket that opens sends the \<open>hello\<close> frame followed by the \<open>boot-1\<close> ping,
  each time.
\<close>

theorem reconnect_after_close:
  "(socket_state (run rt env evs) i \<noteq> None \<and> socket_state (run rt env evs) i \<noteq> Some CLOSED \<longrightarrow>
      reconnectTimer (run rt env (evs @ [SocketClose i])) = Some (next_timer (run rt env evs))
    \<and> (next_timer (run rt env evs), 1500) \<in> set (timers (run rt env (evs @ [SocketClose i])))
    \<and> list_all (\<lambda>(h, d). d = 1500) (timers (run rt env (evs @ [SocketClose i]))))
   \<and> (socket_state (run rt env evs) i = Some OPEN \<longrightarrow>
        run rt env (evs @ [SocketError i]) = set_socket i CLOSING (run rt env evs))
   \<and> (h \<in> fst ` set (timers (run rt env evs)) \<longrightarrow>
        ws_readyState (run rt env (evs @ [TimerFired h])) = Some CONNECTING
      \<or> ws_readyState (run rt env (evs @ [TimerFired h])) = Some OPEN)
   \<and> (socket_state (run rt env evs) i = Some CONNECTING \<longrightarrow>
        sent (run rt env (evs @ [SocketOpen i])) = sent (run rt env evs) @ [hello_frame, boot_ping])"
  unfolding run_snoc
  using onclose_schedules[OF _ _ relay_ok_run, of rt env evs i rt env]
    onerror_closes[OF relay_ok_run, of rt env evs i rt env]
    timer_reconnects[of h "run rt env evs" rt env]
    onopen_sends[OF relay_ok_run, of rt env evs i rt env]
  by blast

lemma run_example:
  "run rt0 browser0 [SocketOpen 0] =
     initial_world\<lparr>sockets := [OPEN], ws := Some 0, sent := [hello_frame, boot_ping]\<rparr>"
  "run rt0 browser0 [SocketOpen 0, SocketError 0] =
     initial_world\<lparr>sockets := [CLOSING], ws := Some 0, sent := [hello_frame, boot_ping]\<rparr>"
  "run rt0 browser0 [SocketOpen 0, SocketError 0, SocketClose 0] =
     initial_world\<lparr>sockets := [CLOSED], ws := Some 0, sent := [hello_frame, boot_ping],
                   reconnectTimer := Some 1, timers := [(1, 1500)], next_timer := 2\<rparr>"
  "run rt0 browser0 [SocketOpen 0, SocketError 0, SocketClose 0, TimerFired 1] =
     initial_world\<lparr>sockets := [CLOSED, CONNECTING], ws := Some 1,
                   sent := [hello_frame, boot_ping],
                   reconnectTimer := Some 1, timers := [], next_timer := 2\<rparr>"
  by (simp_all add: run_def initial_world_def connectWS_def ws_readyState_def socket_state_def
      set_socket_def ws_onopen_def wsSend_def ws_onerror_def ws_close_def ws_onclose_def
      setTimeout_connectWS_def clearTimeout_def RETRY_MS_def)

theorem reconnect_after_close_witness:
  "run rt0 browser0 [SocketOpen 0, SocketError 0] =
     set_socket 0 CLOSING (run rt0 browser0 [SocketOpen 0])
   \<and> (1, 1500) \<in> set (timers (run rt0 browser0 [SocketOpen 0, SocketError 0, SocketClose 0]))
   \<and> reconnectTimer (run rt0 browser0 [SocketOpen 0, SocketError 0, SocketClose 0]) = Some 1
   \<and> (ws_readyState (run rt0 browser0 [SocketOpen 0, SocketError 0, SocketClose 0, TimerFired 1])
         = Some CONNECTING
      \<or> ws_readyState (run rt0 browser0 [SocketOpen 0, SocketError 0, SocketClose 0, TimerFired 1])
         = Some OPEN)
   \<and> sent (run rt0 browser0
             [SocketOpen 0, SocketError 0, SocketClose 0, TimerFired 1, SocketOpen 1])
       = [hello_frame, boot_ping, hello_frame, boot_ping]"
proof (intro conjI)
  have "socket_state (run rt0 browser0 [SocketOpen 0]) 0 = Some OPEN"
    by (simp add: run_example socket_state_def initial_world_def)
  with reconnect_after_close [of rt0 browser0 "[SocketOpen 0]" 0 1]
  show "run rt0 browser0 [SocketOpen 0, SocketError 0] =
        set_socket 0 CLOSING (run rt0 browser0 [SocketOpen 0])"
    by simp
next
  have c: "socket_state (run rt0 browser0 [SocketOpen 0, SocketError 0]) 0 = Some CLOSING"
    "next_timer (run rt0 browser0 [SocketOpen 0, SocketError 0]) = 1"
    by (simp_all add: run_example socket_state_def initial_world_def)
  with reconnect_after_close [of rt0 browser0 "[SocketOpen 0, SocketError 0]" 0 1]
  show "(1, 1500) \<in> set (timers (run rt0 browser0 [SocketOpen 0, SocketError 0, SocketClose 0]))"
    by simp
  from c reconnect_after_close [of rt0 browser0 "[SocketOpen 0, SocketError 0]" 0 1]
  show "reconnectTimer (run rt0 browser0 [SocketOpen 0, SocketError 0, SocketClose 0]) = Some 1"
    by simp
next
  have "1 \<in> fst ` set (timers (run rt0 browser0 [SocketOpen 0, SocketError 0, SocketClose 0]))"
    by (simp add: run_example initial_world_def)
  with reconnect_after_close
         [of rt0 browser0 "[SocketOpen 0, SocketError 0, SocketClose 0]" 0 1]
  show "ws_readyState (run rt0 browser0 [SocketOpen 0, SocketError 0, SocketClose 0, TimerFired 1])
         = Some CONNECTING
      \<or> ws_readyState (run rt0 browser0 [SocketOpen 0, SocketError 0, SocketClose 0, TimerFired 1])
         = Some OPEN"
    by simp
next
  have "socket_state
          (run rt0 browser0 [SocketOpen 0, SocketError 0, SocketClose 0, TimerFired 1]) 1
        = Some CONNECTING"
    "sent (run rt0 browser0 [SocketOpen 0, SocketError 0, SocketClose 0, TimerFired 1])
        = [hello_frame, boot_ping]"
    unfolding run_example by (simp_all add: socket_state_def initial_world_def)
  with reconnect_after_close
         [of rt0 browser0 "[SocketOpen 0, SocketError 0, SocketClose 0, TimerFired 1]" 1 1]
  show "sent (run rt0 browser0
               [SocketOpen 0, SocketError 0, SocketClose 0, TimerFired 1, SocketOpen 1])
        = [hello_frame, boot_ping, hello_frame, boot_ping]"
    by simp
qed

end
